theory Spec2Isabelle
  imports Main "HOL-Library.AList" "HOL-Library.Word"
begin

section \<open>Strings and the JSON library\<close>

text \<open>
  A \<^verbatim>\<open>std::string\<close> is a byte sequence that may hold the byte 0. The JSON library
  takes and returns C strings, which end at the first byte 0: \<^verbatim>\<open>s.c_str()\<close> handed to
  it therefore denotes the part of \<open>s\<close> before its first byte 0. The strings inside a
  JSON tree of the model stand for C strings.
\<close>

definition c_str :: "string \<Rightarrow> string" where
  "c_str s = takeWhile (\<lambda>c. c \<noteq> CHR 0x00) s"

definition no_NUL :: "string \<Rightarrow> bool" where
  "no_NUL s = (CHR 0x00 \<notin> set s)"

text \<open>
  The trees of cJSON. The library stores a number as a C double; nothing here computes
  with it, so the number type is the parameter \<open>'n\<close>. A pointer to a tree is an
  option, \<open>None\<close> for the null pointer.
\<close>

datatype 'n cJSON =
    cJSON_False
  | cJSON_True
  | cJSON_NULL
  | cJSON_Number 'n
  | cJSON_String string
  | cJSON_Array "'n cJSON list"
  | cJSON_Object "(string \<times> 'n cJSON) list"
  | cJSON_Raw string

definition cJSON_IsString :: "'n cJSON option \<Rightarrow> bool" where
  "cJSON_IsString item = (case item of Some (cJSON_String s) \<Rightarrow> True | _ \<Rightarrow> False)"

definition cJSON_IsObject :: "'n cJSON option \<Rightarrow> bool" where
  "cJSON_IsObject item = (case item of Some (cJSON_Object cs) \<Rightarrow> True | _ \<Rightarrow> False)"

definition valuestring :: "'n cJSON option \<Rightarrow> string" where
  "valuestring item = (case item of Some (cJSON_String s) \<Rightarrow> s | _ \<Rightarrow> [])"

text \<open>
  \<^verbatim>\<open>cJSON_GetObjectItemCaseSensitive\<close> walks the children of its argument and returns
  the first one whose name is the given one; the children of an array and a scalar have
  no names, and the null pointer has no children.
\<close>

definition cJSON_GetObjectItemCaseSensitive :: "'n cJSON option \<Rightarrow> string \<Rightarrow> 'n cJSON option" where
  "cJSON_GetObjectItemCaseSensitive object name =
     (case object of Some (cJSON_Object cs) \<Rightarrow> map_of cs name | _ \<Rightarrow> None)"

text \<open>The children \<^verbatim>\<open>cJSON_ArrayForEach\<close> visits, in order, each with its name.\<close>

definition children :: "'n cJSON option \<Rightarrow> (string \<times> 'n cJSON) list" where
  "children item = (case item of Some (cJSON_Object cs) \<Rightarrow> cs | _ \<Rightarrow> [])"

section \<open>Exceptions\<close>

text \<open>
  The two exception classes the code throws, both derived from \<^verbatim>\<open>std::exception\<close>,
  each with its message; and an exception of any class that is not derived from it,
  which only a caller-supplied callback can throw.
\<close>

datatype exception =
    runtime_error string
  | invalid_argument string
  | non_std_exception

fun what :: "exception \<Rightarrow> string" where
  "what (runtime_error w) = w"
| "what (invalid_argument w) = w"
| "what non_std_exception = []"

fun is_std_exception :: "exception \<Rightarrow> bool" where
  "is_std_exception non_std_exception = False"
| "is_std_exception e = True"

section \<open>Message types\<close>

datatype SignalingMessageType =
    REGISTER | REQUEST | RESPONSE | OFFER | ANSWER | ICE | HEARTBEAT
  | ERROR | DISCONNECT | STATUS | CONFIG_UPDATE | STREAM_INFO | LOG | DIAGNOSTICS

fun signalingMessageTypeToString :: "SignalingMessageType \<Rightarrow> string" where
  "signalingMessageTypeToString REGISTER = ''REGISTER''"
| "signalingMessageTypeToString REQUEST = ''REQUEST''"
| "signalingMessageTypeToString RESPONSE = ''RESPONSE''"
| "signalingMessageTypeToString OFFER = ''OFFER''"
| "signalingMessageTypeToString ANSWER = ''ANSWER''"
| "signalingMessageTypeToString ICE = ''ICE''"
| "signalingMessageTypeToString HEARTBEAT = ''HEARTBEAT''"
| "signalingMessageTypeToString ERROR = ''ERROR''"
| "signalingMessageTypeToString DISCONNECT = ''DISCONNECT''"
| "signalingMessageTypeToString STATUS = ''STATUS''"
| "signalingMessageTypeToString CONFIG_UPDATE = ''CONFIG_UPDATE''"
| "signalingMessageTypeToString STREAM_INFO = ''STREAM_INFO''"
| "signalingMessageTypeToString LOG = ''LOG''"
| "signalingMessageTypeToString DIAGNOSTICS = ''DIAGNOSTICS''"

definition stringToSignalingMessageType :: "string \<Rightarrow> exception + SignalingMessageType" where
  "stringToSignalingMessageType typeStr =
     (if typeStr = ''REGISTER'' then Inr REGISTER
      else if typeStr = ''REQUEST'' then Inr REQUEST
      else if typeStr = ''RESPONSE'' then Inr RESPONSE
      else if typeStr = ''OFFER'' then Inr OFFER
      else if typeStr = ''ANSWER'' then Inr ANSWER
      else if typeStr = ''ICE'' then Inr ICE
      else if typeStr = ''HEARTBEAT'' then Inr HEARTBEAT
      else if typeStr = ''ERROR'' then Inr ERROR
      else if typeStr = ''DISCONNECT'' then Inr DISCONNECT
      else if typeStr = ''STATUS'' then Inr STATUS
      else if typeStr = ''CONFIG_UPDATE'' then Inr CONFIG_UPDATE
      else if typeStr = ''STREAM_INFO'' then Inr STREAM_INFO
      else if typeStr = ''LOG'' then Inr LOG
      else if typeStr = ''DIAGNOSTICS'' then Inr DIAGNOSTICS
      else Inl (invalid_argument (''Unknown message type: '' @ typeStr)))"

section \<open>The store of payload trees\<close>

text \<open>
  A message holds its payload through a raw pointer, and the code pairs
  \<^verbatim>\<open>cJSON_Duplicate\<close> with \<^verbatim>\<open>cJSON_Delete\<close> by hand, so the trees live in an
  explicit store. An address names a whole tree (the library owns the nodes below a
  root). A cell is \<open>Some t\<close> while the tree is allocated and \<open>None\<close> once it is
  deleted; allocation takes the next address, so an address is never handed out twice.
  Allocation failure is not modelled. The holder of a pointer \<open>a\<close> mutates its tree by
  writing the cell: \<open>h[a := Some t']\<close>.
\<close>

type_synonym addr = nat
type_synonym 'n heap = "'n cJSON option list"

definition lookup :: "'n heap \<Rightarrow> addr \<Rightarrow> 'n cJSON option" where
  "lookup h a = (if a < length h then h ! a else None)"

definition heap_alloc :: "'n cJSON \<Rightarrow> 'n heap \<Rightarrow> addr \<times> 'n heap" where
  "heap_alloc t h = (length h, h @ [Some t])"

text \<open>
  \<^verbatim>\<open>cJSON_Duplicate(item, 1)\<close>: a deep copy at a new address; the null pointer for the
  null pointer. Duplicating a deleted tree is undefined in C; the model returns the null
  pointer there, and the theorems below exclude it by hypothesis where it matters.
\<close>

definition cJSON_Duplicate :: "addr option \<Rightarrow> 'n heap \<Rightarrow> addr option \<times> 'n heap" where
  "cJSON_Duplicate item h =
     (case item of
        None \<Rightarrow> (None, h)
      | Some a \<Rightarrow>
          (case lookup h a of
             None \<Rightarrow> (None, h)
           | Some t \<Rightarrow> (let (a', h') = heap_alloc t h in (Some a', h'))))"

definition cJSON_Delete :: "addr option \<Rightarrow> 'n heap \<Rightarrow> 'n heap" where
  "cJSON_Delete item h = (case item of None \<Rightarrow> h | Some a \<Rightarrow> h[a := None])"

section \<open>SignalingMessage\<close>

text \<open>
  Modelled from the spec: the header \<^verbatim>\<open>SignalingProtocol.h\<close>, which declares the
  members of the class, is not among the sources. The specification gives \<open>metadata\<close>
  as a mapping of string key to string value, keys unique, insertion order irrelevant, and
  the code uses it as one (\<^verbatim>\<open>metadata[key] = value\<close>, \<^verbatim>\<open>find\<close>, \<^verbatim>\<open>empty\<close>,
  iteration over pairs). It is an association list here, with one entry for each key,
  iterated in the order of the list. The members \<^verbatim>\<open>type\<close> and \<^verbatim>\<open>id\<close> are named
  after the constructor's parameters \<^verbatim>\<open>msgType\<close> and \<^verbatim>\<open>msgId\<close>; the payload is the
  raw pointer the code tests and passes to the library.
\<close>

record SignalingMessage =
  msgType :: SignalingMessageType
  msgId :: string
  payload :: "addr option"
  metadata :: "(string \<times> string) list"

definition payload_tree :: "'n heap \<Rightarrow> SignalingMessage \<Rightarrow> 'n cJSON option" where
  "payload_tree h m = (case payload m of None \<Rightarrow> None | Some a \<Rightarrow> lookup h a)"

definition SignalingMessage_default :: SignalingMessage where
  "SignalingMessage_default = \<lparr>msgType = REGISTER, msgId = [], payload = None, metadata = []\<rparr>"

definition SignalingMessage_new :: "SignalingMessageType \<Rightarrow> string \<Rightarrow> SignalingMessage" where
  "SignalingMessage_new t i = \<lparr>msgType = t, msgId = i, payload = None, metadata = []\<rparr>"

text \<open>The destructor.\<close>

definition destroy :: "SignalingMessage \<Rightarrow> 'n heap \<Rightarrow> 'n heap" where
  "destroy m h = (if payload m \<noteq> None then cJSON_Delete (payload m) h else h)"

text \<open>The copy constructor: the new message and the store.\<close>

definition copy_construct :: "SignalingMessage \<Rightarrow> 'n heap \<Rightarrow> SignalingMessage \<times> 'n heap" where
  "copy_construct other h =
     (let (p, h') = (if payload other \<noteq> None then cJSON_Duplicate (payload other) h else (None, h))
      in (\<lparr>msgType = msgType other, msgId = msgId other, payload = p, metadata = metadata other\<rparr>, h'))"

text \<open>
  The move constructor: the new message and the moved-from one. A moved-from
  \<^verbatim>\<open>std::string\<close> or map is in a valid state the standard leaves open; the model takes
  the empty one, as the common implementations do, and no theorem below reads it.
\<close>

definition move_construct :: "SignalingMessage \<Rightarrow> SignalingMessage \<times> SignalingMessage" where
  "move_construct other =
     (\<lparr>msgType = msgType other, msgId = msgId other, payload = payload other, metadata = metadata other\<rparr>,
      other\<lparr>msgId := [], payload := None, metadata := []\<rparr>)"

text \<open>
  The assignment operators compare \<^verbatim>\<open>this\<close> with the address of their argument, so
  here the message objects live in a store of their own, \<open>objs\<close>, indexed by object
  address.
\<close>

definition copy_assign ::
  "nat \<Rightarrow> nat \<Rightarrow> (nat \<Rightarrow> SignalingMessage) \<Rightarrow> 'n heap \<Rightarrow> (nat \<Rightarrow> SignalingMessage) \<times> 'n heap" where
  "copy_assign this other objs h =
     (if this \<noteq> other then
        (let h1 = (if payload (objs this) \<noteq> None then cJSON_Delete (payload (objs this)) h else h);
             src = objs other;
             (p, h2) = (if payload src \<noteq> None then cJSON_Duplicate (payload src) h1 else (None, h1))
         in (objs(this := \<lparr>msgType = msgType src, msgId = msgId src, payload = p, metadata = metadata src\<rparr>), h2))
      else (objs, h))"

definition move_assign ::
  "nat \<Rightarrow> nat \<Rightarrow> (nat \<Rightarrow> SignalingMessage) \<Rightarrow> 'n heap \<Rightarrow> (nat \<Rightarrow> SignalingMessage) \<times> 'n heap" where
  "move_assign this other objs h =
     (if this \<noteq> other then
        (let h1 = (if payload (objs this) \<noteq> None then cJSON_Delete (payload (objs this)) h else h);
             src = objs other;
             objs1 = objs(this := \<lparr>msgType = msgType src, msgId = msgId src, payload = payload src, metadata = metadata src\<rparr>);
             objs2 = objs1(other := src\<lparr>msgId := [], payload := None, metadata := []\<rparr>)
         in (objs2, h1))
      else (objs, h))"

subsection \<open>Setters and getters\<close>

definition setType :: "SignalingMessage \<Rightarrow> SignalingMessageType \<Rightarrow> SignalingMessage" where
  "setType m newType = m\<lparr>msgType := newType\<rparr>"

definition setId :: "SignalingMessage \<Rightarrow> string \<Rightarrow> SignalingMessage" where
  "setId m newId = m\<lparr>msgId := newId\<rparr>"

definition setPayload :: "SignalingMessage \<Rightarrow> addr option \<Rightarrow> 'n heap \<Rightarrow> SignalingMessage \<times> 'n heap" where
  "setPayload m newPayload h =
     (let h1 = (if payload m \<noteq> None then cJSON_Delete (payload m) h else h);
          (p, h2) = (if newPayload \<noteq> None then cJSON_Duplicate newPayload h1 else (None, h1))
      in (m\<lparr>payload := p\<rparr>, h2))"

definition addMetadata :: "SignalingMessage \<Rightarrow> string \<Rightarrow> string \<Rightarrow> SignalingMessage" where
  "addMetadata m key val = m\<lparr>metadata := AList.update key val (metadata m)\<rparr>"

definition getType :: "SignalingMessage \<Rightarrow> SignalingMessageType" where
  "getType m = msgType m"

definition getId :: "SignalingMessage \<Rightarrow> string" where
  "getId m = msgId m"

definition getPayload :: "SignalingMessage \<Rightarrow> 'n heap \<Rightarrow> addr option \<times> 'n heap" where
  "getPayload m h = (if payload m \<noteq> None then cJSON_Duplicate (payload m) h else (None, h))"

definition getMetadata :: "SignalingMessage \<Rightarrow> string \<Rightarrow> string" where
  "getMetadata m key = (case map_of (metadata m) key of Some v \<Rightarrow> v | None \<Rightarrow> [])"

subsection \<open>Serialization\<close>

text \<open>
  The root object \<^verbatim>\<open>serialize\<close> builds. It is created, printed and deleted inside the
  call, and so is the duplicate of the payload added to it: the store is the same after
  the call, and the function only reads it.
\<close>

definition message_json :: "'n heap \<Rightarrow> SignalingMessage \<Rightarrow> 'n cJSON" where
  "message_json h m =
     cJSON_Object
       ([(''type'', cJSON_String (c_str (signalingMessageTypeToString (msgType m)))),
         (''id'', cJSON_String (c_str (msgId m)))]
        @ (case payload_tree h m of None \<Rightarrow> [] | Some p \<Rightarrow> [(''payload'', p)])
        @ (if metadata m \<noteq> []
           then [(''metadata'',
                  cJSON_Object (map (\<lambda>pair. (c_str (fst pair), cJSON_String (c_str (snd pair)))) (metadata m)))]
           else []))"

text \<open>
  The printer and the parser belong to the JSON library and are parameters:
  \<open>Print t\<close> is the text \<^verbatim>\<open>cJSON_Print\<close> returns for \<open>t\<close>, or \<open>None\<close> for its null
  pointer; \<open>Parse s\<close> is \<open>Inr root\<close> when \<^verbatim>\<open>cJSON_Parse\<close> returns a tree for the C string
  \<open>s\<close>, and \<open>Inl e\<close> when it returns the null pointer, \<open>e\<close> being what
  \<^verbatim>\<open>cJSON_GetErrorPtr\<close> then returns.
\<close>

definition serialize :: "('n cJSON \<Rightarrow> string option) \<Rightarrow> 'n heap \<Rightarrow> SignalingMessage \<Rightarrow> exception + string" where
  "serialize Print h m =
     (case Print (message_json h m) of
        None \<Rightarrow> Inl (runtime_error ''Failed to convert JSON to string'')
      | Some jsonStr \<Rightarrow> Inr jsonStr)"

text \<open>
  \<^verbatim>\<open>deserialize\<close>. The parsed root is deleted on every path, so it is not kept in the
  store. The payload is duplicated twice, once by the caller of \<^verbatim>\<open>setPayload\<close> and
  once inside it, and the first duplicate is never deleted: both cells stay allocated. A
  failing call throws before it allocates anything.
\<close>

definition deserialize ::
  "(string \<Rightarrow> string option + 'n cJSON) \<Rightarrow> string \<Rightarrow> 'n heap \<Rightarrow> exception + (SignalingMessage \<times> 'n heap)" where
  "deserialize Parse jsonStr h =
     (case Parse (c_str jsonStr) of
        Inl err \<Rightarrow> Inl (runtime_error (case err of Some e \<Rightarrow> e | None \<Rightarrow> ''Failed to parse JSON''))
      | Inr root \<Rightarrow>
          (let msg = SignalingMessage_default;
               typeJson = cJSON_GetObjectItemCaseSensitive (Some root) ''type''
           in if \<not> cJSON_IsString typeJson then Inl (invalid_argument ''Missing or invalid message type'')
              else
                (case stringToSignalingMessageType (valuestring typeJson) of
                   Inl e \<Rightarrow> Inl e
                 | Inr t \<Rightarrow>
                     (let msg = setType msg t;
                          idJson = cJSON_GetObjectItemCaseSensitive (Some root) ''id''
                      in if \<not> cJSON_IsString idJson then Inl (invalid_argument ''Missing or invalid message ID'')
                         else
                           (let msg = setId msg (valuestring idJson);
                                payloadJson = cJSON_GetObjectItemCaseSensitive (Some root) ''payload'';
                                (msg, h) =
                                  (case payloadJson of
                                     None \<Rightarrow> (msg, h)
                                   | Some p \<Rightarrow> (let (d, h1) = heap_alloc p h in setPayload msg (Some d) h1));
                                metadataJson = cJSON_GetObjectItemCaseSensitive (Some root) ''metadata'';
                                msg =
                                  (if cJSON_IsObject metadataJson
                                   then foldl (\<lambda>m metaItem.
                                                 if cJSON_IsString (Some (snd metaItem))
                                                 then addMetadata m (fst metaItem) (valuestring (Some (snd metaItem)))
                                                 else m)
                                          msg (children metadataJson)
                                   else msg)
                            in Inr (msg, h))))))"

subsection \<open>Validation\<close>

definition validate :: "'n heap \<Rightarrow> SignalingMessage \<Rightarrow> bool" where
  "validate h m =
     (if msgId m = [] then False
      else
        (case msgType m of
           REGISTER \<Rightarrow> payload m \<noteq> None
         | REQUEST \<Rightarrow> payload m \<noteq> None
         | OFFER \<Rightarrow>
             (if payload m = None then False
              else (let sdp = cJSON_GetObjectItemCaseSensitive (payload_tree h m) ''sdp''
                    in sdp \<noteq> None \<and> cJSON_IsString sdp))
         | ANSWER \<Rightarrow>
             (if payload m = None then False
              else (let sdp = cJSON_GetObjectItemCaseSensitive (payload_tree h m) ''sdp''
                    in sdp \<noteq> None \<and> cJSON_IsString sdp))
         | ICE \<Rightarrow>
             (if payload m = None then False
              else (let candidate = cJSON_GetObjectItemCaseSensitive (payload_tree h m) ''candidate''
                    in candidate \<noteq> None \<and> cJSON_IsString candidate))
         | HEARTBEAT \<Rightarrow> True
         | ERROR \<Rightarrow> payload m \<noteq> None
         | _ \<Rightarrow> True))"

section \<open>SignalingClient\<close>

text \<open>
  The members of the client the claims read (\<open>wsi\<close>, \<open>connected\<close>, \<open>running\<close>,
  \<open>incomingMessages\<close>, \<open>messageCallback\<close>), and what the client does to its
  surroundings: the store of payload trees, the frames handed to \<^verbatim>\<open>lws_write\<close>, the
  invocations of the registered callback (the callback, the message it was handed and
  that message's payload tree at the call), and the lines printed to the two streams.
  A connection handle and a callback are opaque names; an unset \<^verbatim>\<open>std::function\<close> is
  \<open>None\<close>. Every operation is one atomic step: the two threads of the program and the
  mutex that orders them are not modelled.
\<close>

type_synonym lws = nat
type_synonym MessageCallback = nat

record 'n world =
  wsi :: "lws option"
  connected :: bool
  running :: bool
  incomingMessages :: "SignalingMessage list"
  messageCallback :: "MessageCallback option"
  heap :: "'n heap"
  lws_written :: "string list"
  callback_calls :: "(MessageCallback \<times> SignalingMessage \<times> 'n cJSON option) list"
  stderr :: "string list"
  stdout :: "string list"
  context_user :: "unit option"

text \<open>
  The client as its constructor leaves it, in surroundings where nothing has happened yet.
  The last field is the user pointer of the libwebsockets context: \<open>Some ()\<close> when it
  points at the client, \<open>None\<close> for the null pointer. The constructor zeroes the creation
  info with \<^verbatim>\<open>memset\<close> and sets its port, interface, protocols, gid and uid, but never
  \<^verbatim>\<open>info.user\<close>: the context is created with a null user pointer, and nothing changes it
  afterwards.
\<close>

definition SignalingClient_new :: "'n world" where
  "SignalingClient_new =
     \<lparr>wsi = None, connected = False, running = False, incomingMessages = [], messageCallback = None,
      heap = [], lws_written = [], callback_calls = [], stderr = [], stdout = [], context_user = None\<rparr>"

text \<open>
  \<^verbatim>\<open>connect\<close>. Its parameter is what \<^verbatim>\<open>lws_client_connect_via_info\<close> returns: a
  connection, or the null pointer. The library also writes that result through
  \<^verbatim>\<open>ccinfo.pwsi\<close>, which points at the member \<open>wsi\<close>.
\<close>

definition connect :: "lws option \<Rightarrow> 'n world \<Rightarrow> bool \<times> 'n world" where
  "connect lws_client_connect_via_info s =
     (if connected s then (True, s)
      else
        (let connection = lws_client_connect_via_info;
             s1 = s\<lparr>wsi := connection\<rparr>
         in if connection = None then (False, s1)
            else (True, s1\<lparr>connected := True\<rparr>)))"

definition stopEventLoop :: "'n world \<Rightarrow> 'n world" where
  "stopEventLoop s = s\<lparr>running := False\<rparr>"

definition startEventLoop :: "'n world \<Rightarrow> 'n world" where
  "startEventLoop s = (if running s then s else s\<lparr>running := True\<rparr>)"

definition disconnect :: "'n world \<Rightarrow> 'n world" where
  "disconnect s =
     (if \<not> connected s then s
      else
        (let s1 = stopEventLoop s;
             s2 = (if wsi s1 \<noteq> None then s1\<lparr>wsi := None\<rparr> else s1)
         in s2\<lparr>connected := False\<rparr>))"

definition isConnected :: "'n world \<Rightarrow> bool" where
  "isConnected s = connected s"

text \<open>
  \<^verbatim>\<open>sendMessage\<close>. \<open>lws_write\<close> gives the C int the library returns for a frame. The
  comparison \<^verbatim>\<open>n < serializedMsg.length()\<close> is between an int and a \<^verbatim>\<open>size_t\<close>: C++
  converts the int to the unsigned type first (here 32 and 64 bits), which is what
  \<open>scast\<close> does before the unsigned comparison of words.
\<close>

definition sendMessage ::
  "('n cJSON \<Rightarrow> string option) \<Rightarrow> (lws option \<Rightarrow> string \<Rightarrow> 32 word) \<Rightarrow> SignalingMessage \<Rightarrow> 'n world
     \<Rightarrow> (exception + unit) \<times> 'n world" where
  "sendMessage Print lws_write message s =
     (if \<not> connected s then (Inl (runtime_error ''Not connected to signaling server''), s)
      else
        (case serialize Print (heap s) message of
           Inl e \<Rightarrow> (Inl e, s)
         | Inr serializedMsg \<Rightarrow>
             (let n = lws_write (wsi s) serializedMsg;
                  s1 = s\<lparr>lws_written := lws_written s @ [serializedMsg]\<rparr>
              in if (scast n :: 64 word) < of_nat (length serializedMsg)
                 then (Inl (runtime_error ''Failed to send complete message''), s1)
                 else (Inr (), s1))))"

definition setMessageCallback :: "MessageCallback option \<Rightarrow> 'n world \<Rightarrow> 'n world" where
  "setMessageCallback callback s = s\<lparr>messageCallback := callback\<rparr>"

text \<open>
  \<^verbatim>\<open>processIncomingMessage\<close>, in two parts: the body of its \<^verbatim>\<open>try\<close> block, which ends
  normally or with an exception, and the handler around it, which catches
  \<^verbatim>\<open>std::exception\<close> and prints a line. The callback is code of the caller: \<open>run\<close>
  gives how a call of it ends (\<open>None\<close>: it returns), and the model records the call.
  The local \<^verbatim>\<open>message\<close> is destroyed when the block is left, either way; the queue
  receives a copy made by the copy constructor.
\<close>

definition try_processIncomingMessage ::
  "(string \<Rightarrow> string option + 'n cJSON) \<Rightarrow> (MessageCallback \<Rightarrow> SignalingMessage \<Rightarrow> 'n cJSON option \<Rightarrow> exception option)
     \<Rightarrow> string \<Rightarrow> 'n world \<Rightarrow> (exception + unit) \<times> 'n world" where
  "try_processIncomingMessage Parse run data s =
     (case deserialize Parse data (heap s) of
        Inl e \<Rightarrow> (Inl e, s)
      | Inr (message, h1) \<Rightarrow>
          (let s1 = s\<lparr>heap := h1\<rparr>
           in case messageCallback s1 of
                Some cb \<Rightarrow>
                  (let s2 = s1\<lparr>callback_calls := callback_calls s1 @ [(cb, message, payload_tree h1 message)]\<rparr>;
                       r = run cb message (payload_tree h1 message);
                       s3 = s2\<lparr>heap := destroy message (heap s2)\<rparr>
                   in (case r of None \<Rightarrow> Inr () | Some e \<Rightarrow> Inl e, s3))
              | None \<Rightarrow>
                  (let (copy, h2) = copy_construct message (heap s1);
                       s2 = s1\<lparr>heap := h2, incomingMessages := incomingMessages s1 @ [copy]\<rparr>
                   in (Inr (), s2\<lparr>heap := destroy message (heap s2)\<rparr>))))"

definition processIncomingMessage ::
  "(string \<Rightarrow> string option + 'n cJSON) \<Rightarrow> (MessageCallback \<Rightarrow> SignalingMessage \<Rightarrow> 'n cJSON option \<Rightarrow> exception option)
     \<Rightarrow> string \<Rightarrow> 'n world \<Rightarrow> (exception + unit) \<times> 'n world" where
  "processIncomingMessage Parse run data s =
     (case try_processIncomingMessage Parse run data s of
        (Inr u, s') \<Rightarrow> (Inr u, s')
      | (Inl e, s') \<Rightarrow>
          (if is_std_exception e
           then (Inr (), s'\<lparr>stderr := stderr s' @ [''Message deserialization error: '' @ what e @ [CHR 0x0A]]\<rparr>)
           else (Inl e, s')))"

text \<open>
  The frames of a list, dispatched one after the other, each in its own call, however the
  call before it ended.
\<close>

definition processIncomingMessages ::
  "(string \<Rightarrow> string option + 'n cJSON) \<Rightarrow> (MessageCallback \<Rightarrow> SignalingMessage \<Rightarrow> 'n cJSON option \<Rightarrow> exception option)
     \<Rightarrow> string list \<Rightarrow> 'n world \<Rightarrow> 'n world" where
  "processIncomingMessages Parse run frames s =
     foldl (\<lambda>s' data. snd (processIncomingMessage Parse run data s')) s frames"

text \<open>
  The callback libwebsockets calls on the thread of the event loop. Its client is what
  \<^verbatim>\<open>lws_context_user\<close> returns for the context, the user pointer above. Every case but
  the default one reads or writes a member through that pointer; through the null pointer
  this is undefined in C++, and the call has no result: \<open>None\<close>. The line printed before
  the access is then lost with the rest.
\<close>

datatype lws_callback_reasons =
    LWS_CALLBACK_CLIENT_ESTABLISHED
  | LWS_CALLBACK_CLIENT_RECEIVE
  | LWS_CALLBACK_CLIENT_CLOSED
  | LWS_CALLBACK_CLIENT_CONNECTION_ERROR
  | LWS_CALLBACK_OTHER

definition callback_signaling ::
  "(string \<Rightarrow> string option + 'n cJSON) \<Rightarrow> (MessageCallback \<Rightarrow> SignalingMessage \<Rightarrow> 'n cJSON option \<Rightarrow> exception option)
     \<Rightarrow> lws_callback_reasons \<Rightarrow> string \<Rightarrow> 'n world \<Rightarrow> ((exception + int) \<times> 'n world) option" where
  "callback_signaling Parse run reason data s =
     (let client = context_user s
      in case reason of
           LWS_CALLBACK_CLIENT_ESTABLISHED \<Rightarrow>
             (let s1 = s\<lparr>stdout := stdout s @ [''WebSocket connection established'' @ [CHR 0x0A]]\<rparr>
              in if client = None then None else Some (Inr 0, s1\<lparr>connected := True\<rparr>))
         | LWS_CALLBACK_CLIENT_RECEIVE \<Rightarrow>
             (if client = None then None
              else
                (case processIncomingMessage Parse run data s of
                   (Inl e, s') \<Rightarrow> Some (Inl e, s')
                 | (Inr u, s') \<Rightarrow> Some (Inr 0, s')))
         | LWS_CALLBACK_CLIENT_CLOSED \<Rightarrow>
             (let s1 = s\<lparr>stdout := stdout s @ [''WebSocket connection closed'' @ [CHR 0x0A]]\<rparr>
              in if client = None then None else Some (Inr 0, s1\<lparr>connected := False\<rparr>))
         | LWS_CALLBACK_CLIENT_CONNECTION_ERROR \<Rightarrow>
             (let s1 = s\<lparr>stdout := stdout s @ [''WebSocket connection error'' @ [CHR 0x0A]]\<rparr>
              in if client = None then None else Some (Inr 0, s1\<lparr>connected := False\<rparr>))
         | LWS_CALLBACK_OTHER \<Rightarrow> Some (Inr 0, s))"

text \<open>A frame is decodable when \<^verbatim>\<open>deserialize\<close> returns a message for it.\<close>

definition decodable :: "(string \<Rightarrow> string option + 'n cJSON) \<Rightarrow> string \<Rightarrow> bool" where
  "decodable Parse data = (case deserialize Parse data [] of Inl e \<Rightarrow> False | Inr r \<Rightarrow> True)"

section \<open>A concrete scenario\<close>

text \<open>
  Concrete messages the theorems below are instantiated with. The first is the
  registration of the specification's end-to-end scenario, with the version tag the
  program attaches: type REGISTER, id \<open>dev-42\<close>, payload \<open>{"device_type":"camera"}\<close>,
  metadata \<open>version = 1.0.0\<close>. The second is a heartbeat whose id holds a byte 0. The
  third text names a type outside the enumeration. \<open>example_Print\<close> and \<open>example_Parse\<close>
  stand for the JSON library on these: they map each tree to a JSON text of it (without
  the white space the library's printer adds) and the texts back, and know nothing else.
\<close>

definition example_payload :: "nat cJSON" where
  "example_payload = cJSON_Object [(''device_type'', cJSON_String ''camera'')]"

definition example_metadata :: "(string \<times> string) list" where
  "example_metadata = [(''version'', ''1.0.0'')]"

definition example_root :: "nat cJSON" where
  "example_root =
     cJSON_Object
       [(''type'', cJSON_String ''REGISTER''), (''id'', cJSON_String ''dev-42''), (''payload'', example_payload),
        (''metadata'', cJSON_Object [(''version'', cJSON_String ''1.0.0'')])]"

definition example_text :: string where
  \<open>example_text =
     ''{"type":"REGISTER","id":"dev-42","payload":{"device_type":"camera"},"metadata":{"version":"1.0.0"}}''\<close>

definition heartbeat_root :: "nat cJSON" where
  "heartbeat_root = cJSON_Object [(''type'', cJSON_String ''HEARTBEAT''), (''id'', cJSON_String ''a'')]"

definition heartbeat_text :: string where
  \<open>heartbeat_text = ''{"type":"HEARTBEAT","id":"a"}''\<close>

text \<open>The text of the heartbeat, then a byte 0, then the word \<open>garbage\<close>.\<close>

definition heartbeat_garbage_text :: string where
  "heartbeat_garbage_text = heartbeat_text @ [CHR 0x00] @ ''garbage''"

definition ping_root :: "nat cJSON" where
  "ping_root = cJSON_Object [(''type'', cJSON_String ''PING''), (''id'', cJSON_String ''x'')]"

definition ping_text :: string where
  \<open>ping_text = ''{"type":"PING","id":"x"}''\<close>

definition example_Parse :: "string \<Rightarrow> string option + nat cJSON" where
  "example_Parse s =
     (if s = example_text then Inr example_root
      else if s = heartbeat_text then Inr heartbeat_root
      else if s = ping_text then Inr ping_root
      else Inl None)"

definition example_Print :: "nat cJSON \<Rightarrow> string option" where
  "example_Print t =
     (if t = example_root then Some example_text
      else if t = heartbeat_root then Some heartbeat_text
      else if t = ping_root then Some ping_text
      else None)"

definition example_run :: "MessageCallback \<Rightarrow> SignalingMessage \<Rightarrow> nat cJSON option \<Rightarrow> exception option" where
  "example_run cb m t = None"

text \<open>The registration message, its payload at address 0 of a store, and a connected client.\<close>

definition example_message :: SignalingMessage where
  "example_message = \<lparr>msgType = REGISTER, msgId = ''dev-42'', payload = Some 0, metadata = example_metadata\<rparr>"

definition example_connected :: "nat world" where
  "example_connected = SignalingClient_new\<lparr>wsi := Some 1, connected := True, heap := [Some example_payload]\<rparr>"

definition nul_message :: SignalingMessage where
  "nul_message =
     \<lparr>msgType = HEARTBEAT, msgId = [CHR ''a'', CHR 0x00, CHR ''b''], payload = None, metadata = []\<rparr>"

text \<open>
  The world after the frame \<open>example_text\<close> arrived at a new client with no callback:
  the message is queued with its own copy of the payload (cell 2), the decoded local
  message is destroyed (cell 1), and the duplicate that \<^verbatim>\<open>deserialize\<close> never deletes
  stays allocated (cell 0).
\<close>

definition example_queued :: "nat world" where
  "example_queued =
     SignalingClient_new
       \<lparr>incomingMessages :=
          [\<lparr>msgType = REGISTER, msgId = ''dev-42'', payload = Some 2, metadata = example_metadata\<rparr>],
        heap := [Some example_payload, None, Some example_payload]\<rparr>"

section \<open>Facts about the library model\<close>

lemma cJSON_IsString_iff: "cJSON_IsString x = (\<exists>s. x = Some (cJSON_String s))"
  by (auto simp: cJSON_IsString_def split: option.splits cJSON.splits)

lemma cJSON_IsObject_iff: "cJSON_IsObject x = (\<exists>cs. x = Some (cJSON_Object cs))"
  by (auto simp: cJSON_IsObject_def split: option.splits cJSON.splits)

lemma GetObjectItem_Some_iff:
  "cJSON_GetObjectItemCaseSensitive x name = Some v \<longleftrightarrow>
     (\<exists>cs. x = Some (cJSON_Object cs) \<and> map_of cs name = Some v)"
  by (auto simp: cJSON_GetObjectItemCaseSensitive_def split: option.splits cJSON.splits)

lemma c_str_no_NUL: "no_NUL s \<Longrightarrow> c_str s = s"
  by (induction s) (auto simp: c_str_def no_NUL_def)

lemma c_str_type_name: "c_str (signalingMessageTypeToString t) = signalingMessageTypeToString t"
  by (cases t) (simp_all add: c_str_def)

lemma update_fresh: "k \<notin> fst ` set al \<Longrightarrow> AList.update k v al = al @ [(k, v)]"
  by (induction al) auto

section \<open>Facts about the store\<close>

lemma lookup_append_old: "a < length h \<Longrightarrow> lookup (h @ xs) a = lookup h a"
  by (simp add: lookup_def nth_append)

lemma lookup_update_other: "a \<noteq> b \<Longrightarrow> lookup (h[b := v]) a = lookup h a"
  by (simp add: lookup_def)

lemma lookup_live_less: "lookup h a = Some p \<Longrightarrow> a < length h"
  by (simp add: lookup_def split: if_splits)

lemma lookup_snoc_new: "lookup (h @ [x]) (length h) = x"
  by (simp add: lookup_def)

lemma cJSON_Duplicate_live:
  "lookup h a = Some p \<Longrightarrow> cJSON_Duplicate (Some a) h = (Some (length h), h @ [Some p])"
  by (simp add: cJSON_Duplicate_def heap_alloc_def)

lemma setPayload_fresh:
  "payload m = None \<Longrightarrow>
   setPayload m (Some (length h)) (h @ [Some p]) = (m\<lparr>payload := Some (Suc (length h))\<rparr>, h @ [Some p, Some p])"
  by (simp add: setPayload_def cJSON_Duplicate_def lookup_def heap_alloc_def)

section \<open>Facts about decoding\<close>

lemma stringToSignalingMessageType_Inl:
  "stringToSignalingMessageType t = Inl e \<Longrightarrow> e = invalid_argument (''Unknown message type: '' @ t)"
  by (simp add: stringToSignalingMessageType_def split: if_splits)

lemma stringToSignalingMessageType_Inr_iff:
  "stringToSignalingMessageType t = Inr ty \<longleftrightarrow> t = signalingMessageTypeToString ty"
  by (cases ty) (auto simp: stringToSignalingMessageType_def)

lemma stringToSignalingMessageType_fails_iff:
  "(\<exists>e. stringToSignalingMessageType t = Inl e) \<longleftrightarrow>
     t \<notin> {''REGISTER'', ''REQUEST'', ''RESPONSE'', ''OFFER'', ''ANSWER'', ''ICE'', ''HEARTBEAT'',
           ''ERROR'', ''DISCONNECT'', ''STATUS'', ''CONFIG_UPDATE'', ''STREAM_INFO'', ''LOG'', ''DIAGNOSTICS''}"
  by (simp add: stringToSignalingMessageType_def)

text \<open>The loop over the metadata object changes the metadata only.\<close>

lemma metadata_loop_fields:
  "msgType (foldl (\<lambda>m metaItem. if cJSON_IsString (Some (snd metaItem))
                 then addMetadata m (fst metaItem) (valuestring (Some (snd metaItem))) else m) m0 items) = msgType m0 \<and>
   msgId (foldl (\<lambda>m metaItem. if cJSON_IsString (Some (snd metaItem))
                 then addMetadata m (fst metaItem) (valuestring (Some (snd metaItem))) else m) m0 items) = msgId m0 \<and>
   payload (foldl (\<lambda>m metaItem. if cJSON_IsString (Some (snd metaItem))
                 then addMetadata m (fst metaItem) (valuestring (Some (snd metaItem))) else m) m0 items) = payload m0"
  by (induction items arbitrary: m0) (auto simp: addMetadata_def)

lemma deserialize_parse_failure:
  "Parse (c_str jsonStr) = Inl err \<Longrightarrow>
   deserialize Parse jsonStr h =
     Inl (runtime_error (case err of Some e \<Rightarrow> e | None \<Rightarrow> ''Failed to parse JSON''))"
  by (simp add: deserialize_def)

text \<open>What a call computes once the text has parsed, with the setters and the store unfolded.\<close>

lemma deserialize_parsed:
  assumes "Parse (c_str jsonStr) = Inr root"
  shows "deserialize Parse jsonStr h =
     (case cJSON_GetObjectItemCaseSensitive (Some root) ''type'' of
        Some (cJSON_String ts) \<Rightarrow>
          (case stringToSignalingMessageType ts of
             Inl e \<Rightarrow> Inl e
           | Inr t \<Rightarrow>
               (case cJSON_GetObjectItemCaseSensitive (Some root) ''id'' of
                  Some (cJSON_String i) \<Rightarrow>
                    (let msg = \<lparr>msgType = t, msgId = i, payload = None, metadata = []\<rparr>;
                         (msg, h) =
                           (case cJSON_GetObjectItemCaseSensitive (Some root) ''payload'' of
                              None \<Rightarrow> (msg, h)
                            | Some p \<Rightarrow> (msg\<lparr>payload := Some (Suc (length h))\<rparr>, h @ [Some p, Some p]));
                         metadataJson = cJSON_GetObjectItemCaseSensitive (Some root) ''metadata''
                     in Inr (if cJSON_IsObject metadataJson
                             then foldl (\<lambda>m metaItem.
                                           if cJSON_IsString (Some (snd metaItem))
                                           then addMetadata m (fst metaItem) (valuestring (Some (snd metaItem)))
                                           else m)
                                    msg (children metadataJson)
                             else msg, h))
                | _ \<Rightarrow> Inl (invalid_argument ''Missing or invalid message ID'')))
      | _ \<Rightarrow> Inl (invalid_argument ''Missing or invalid message type''))"
  using assms
  by (auto simp: deserialize_def Let_def cJSON_IsString_def valuestring_def heap_alloc_def setPayload_fresh
        SignalingMessage_default_def setType_def setId_def
        split: option.splits cJSON.splits sum.splits prod.splits)

lemma deserialize_Inl_std: "deserialize Parse data h = Inl e \<Longrightarrow> is_std_exception e"
  by (auto simp: deserialize_def Let_def split: sum.splits if_splits prod.splits option.splits
           dest!: stringToSignalingMessageType_Inl)

text \<open>A successful call leaves every cell it found and adds none or two.\<close>

lemma deserialize_Inr_heap:
  assumes "deserialize Parse data h = Inr (m, h')"
  shows "(payload m = None \<and> h' = h) \<or>
         (\<exists>p. payload m = Some (Suc (length h)) \<and> h' = h @ [Some p, Some p])"
  using assms
  by (auto simp: deserialize_def Let_def metadata_loop_fields heap_alloc_def setPayload_fresh
        SignalingMessage_default_def setType_def setId_def
        split: sum.splits if_splits prod.splits option.splits)

lemma deserialize_isl_heap:
  "isl (deserialize Parse data h) = isl (deserialize Parse data h')"
  by (auto simp: deserialize_def Let_def split: sum.splits if_splits prod.splits option.splits)

lemma decodable_iff: "decodable Parse data = (\<not> isl (deserialize Parse data h))"
  unfolding decodable_def using deserialize_isl_heap [of Parse data "[]" h]
  by (auto split: sum.splits)

lemma destroy_frame:
  assumes "deserialize Parse data h = Inr (m, h1)" and "a < length h"
  shows "lookup (destroy m h1) a = lookup h a"
  using deserialize_Inr_heap [OF assms(1)] assms(2)
  by (auto simp: destroy_def cJSON_Delete_def lookup_def nth_append)

section \<open>Facts about the root object of a message\<close>

lemma message_json_type:
  "cJSON_GetObjectItemCaseSensitive (Some (message_json h m)) ''type'' =
     Some (cJSON_String (signalingMessageTypeToString (msgType m)))"
  by (simp add: message_json_def cJSON_GetObjectItemCaseSensitive_def c_str_type_name)

lemma message_json_id:
  "cJSON_GetObjectItemCaseSensitive (Some (message_json h m)) ''id'' = Some (cJSON_String (c_str (msgId m)))"
  by (simp add: message_json_def cJSON_GetObjectItemCaseSensitive_def)

lemma message_json_payload:
  "cJSON_GetObjectItemCaseSensitive (Some (message_json h m)) ''payload'' = payload_tree h m"
  by (simp add: message_json_def cJSON_GetObjectItemCaseSensitive_def split: option.splits)

lemma message_json_metadata:
  "cJSON_GetObjectItemCaseSensitive (Some (message_json h m)) ''metadata'' =
     (if metadata m \<noteq> []
      then Some (cJSON_Object (map (\<lambda>pair. (c_str (fst pair), cJSON_String (c_str (snd pair)))) (metadata m)))
      else None)"
  by (simp add: message_json_def cJSON_GetObjectItemCaseSensitive_def split: option.splits)

text \<open>
  Reading back the metadata object written for entries with distinct keys and no byte 0
  adds exactly these entries, in their order.
\<close>

lemma metadata_loop_roundtrip:
  assumes "list_all (\<lambda>kv. no_NUL (fst kv) \<and> no_NUL (snd kv)) xs"
    and "distinct (map fst xs)"
    and "fst ` set xs \<inter> fst ` set (metadata m0) = {}"
  shows "foldl (\<lambda>m metaItem. if cJSON_IsString (Some (snd metaItem))
                 then addMetadata m (fst metaItem) (valuestring (Some (snd metaItem))) else m)
           m0 (map (\<lambda>pair. (c_str (fst pair), cJSON_String (c_str (snd pair)))) xs)
         = m0\<lparr>metadata := metadata m0 @ xs\<rparr>"
  using assms
proof (induction xs arbitrary: m0)
  case Nil
  then show ?case by simp
next
  case (Cons kv xs)
  obtain k v where kv: "kv = (k, v)" by (cases kv)
  from Cons.prems kv have nn: "c_str k = k" "c_str v = v"
    by (simp_all add: c_str_no_NUL)
  from Cons.prems kv have fresh: "k \<notin> fst ` set (metadata m0)"
    by auto
  let ?m1 = "addMetadata m0 k v"
  have m1: "?m1 = m0\<lparr>metadata := metadata m0 @ [(k, v)]\<rparr>"
    using fresh by (simp add: addMetadata_def update_fresh)
  have p1: "list_all (\<lambda>kv. no_NUL (fst kv) \<and> no_NUL (snd kv)) xs"
    using Cons.prems by simp
  have p2: "distinct (map fst xs)"
    using Cons.prems by simp
  have p3: "fst ` set xs \<inter> fst ` set (metadata ?m1) = {}"
    using Cons.prems kv by (auto simp: m1)
  note ih = Cons.IH [OF p1 p2 p3]
  show ?case
    using ih by (simp add: kv nn cJSON_IsString_def valuestring_def m1)
qed

lemma deserialize_message_json:
  assumes nn: "list_all (\<lambda>kv. no_NUL (fst kv) \<and> no_NUL (snd kv)) (metadata m)"
    and dist: "distinct (map fst (metadata m))"
    and lib: "Parse (c_str wire) = Inr (message_json h m)"
  shows "deserialize Parse wire hr =
     Inr (case payload_tree h m of
            None \<Rightarrow> (\<lparr>msgType = msgType m, msgId = c_str (msgId m), payload = None, metadata = metadata m\<rparr>, hr)
          | Some p \<Rightarrow> (\<lparr>msgType = msgType m, msgId = c_str (msgId m), payload = Some (Suc (length hr)),
                         metadata = metadata m\<rparr>, hr @ [Some p, Some p]))"
proof -
  have loop: "foldl (\<lambda>m metaItem. if cJSON_IsString (Some (snd metaItem))
                 then addMetadata m (fst metaItem) (valuestring (Some (snd metaItem))) else m)
           m0 (map (\<lambda>pair. (c_str (fst pair), cJSON_String (c_str (snd pair)))) (metadata m))
         = m0\<lparr>metadata := metadata m\<rparr>" if "metadata m0 = []" for m0
    using metadata_loop_roundtrip [OF nn dist, of m0] that by simp
  have ty: "stringToSignalingMessageType (signalingMessageTypeToString (msgType m)) = Inr (msgType m)"
    by (simp add: stringToSignalingMessageType_Inr_iff)
  show ?thesis
    unfolding deserialize_parsed [where Parse = Parse and jsonStr = wire and root = "message_json h m" and h = hr, OF lib]
    by (simp add: message_json_type message_json_id message_json_payload message_json_metadata ty
          cJSON_IsObject_def children_def loop Let_def split: option.splits)
qed

section \<open>The scenario, evaluated\<close>

lemma c_str_example_text: "c_str example_text = example_text"
  by (simp add: c_str_def example_text_def)

lemma c_str_heartbeat_text: "c_str heartbeat_text = heartbeat_text"
  by (simp add: c_str_def heartbeat_text_def)

lemma c_str_ping_text: "c_str ping_text = ping_text"
  by (simp add: c_str_def ping_text_def)

lemma c_str_garbage: "c_str ''garbage'' = ''garbage''"
  by (simp add: c_str_def)

lemma example_Parse_example: "example_Parse (c_str example_text) = Inr example_root"
  by (simp add: c_str_example_text example_Parse_def)

lemma example_Parse_heartbeat: "example_Parse (c_str heartbeat_text) = Inr heartbeat_root"
  by (simp add: c_str_heartbeat_text example_Parse_def) (simp add: example_text_def heartbeat_text_def)

lemma example_Parse_ping: "example_Parse (c_str ping_text) = Inr ping_root"
  by (simp add: c_str_ping_text example_Parse_def) (simp add: example_text_def heartbeat_text_def ping_text_def)

lemma example_Parse_garbage: "example_Parse (c_str ''garbage'') = Inl None"
  by (simp add: c_str_garbage example_Parse_def) (simp add: example_text_def heartbeat_text_def ping_text_def)

lemma example_deserialize:
  "deserialize example_Parse example_text h =
     Inr (\<lparr>msgType = REGISTER, msgId = ''dev-42'', payload = Some (Suc (length h)), metadata = example_metadata\<rparr>,
          h @ [Some example_payload, Some example_payload])"
  unfolding deserialize_parsed [where Parse = example_Parse and jsonStr = example_text and root = example_root and h = h,
      OF example_Parse_example]
  by (simp add: example_root_def example_metadata_def cJSON_GetObjectItemCaseSensitive_def cJSON_IsString_def
        cJSON_IsObject_def valuestring_def children_def stringToSignalingMessageType_def addMetadata_def)

lemma example_deserialize_heartbeat:
  "deserialize example_Parse heartbeat_text h =
     Inr (\<lparr>msgType = HEARTBEAT, msgId = ''a'', payload = None, metadata = []\<rparr>, h)"
  unfolding deserialize_parsed [where Parse = example_Parse and jsonStr = heartbeat_text and root = heartbeat_root and h = h,
      OF example_Parse_heartbeat]
  by (simp add: heartbeat_root_def cJSON_GetObjectItemCaseSensitive_def cJSON_IsString_def
        cJSON_IsObject_def valuestring_def children_def stringToSignalingMessageType_def)

lemma c_str_after_nul: "c_str heartbeat_garbage_text = heartbeat_text"
  by (simp add: c_str_def heartbeat_garbage_text_def heartbeat_text_def)

lemma example_deserialize_after_nul:
  "deserialize example_Parse heartbeat_garbage_text h =
     Inr (\<lparr>msgType = HEARTBEAT, msgId = ''a'', payload = None, metadata = []\<rparr>, h)"
proof -
  have p: "example_Parse (c_str heartbeat_garbage_text) = Inr heartbeat_root"
    using example_Parse_heartbeat by (simp add: c_str_after_nul c_str_heartbeat_text)
  show ?thesis
    unfolding deserialize_parsed [where Parse = example_Parse
        and jsonStr = heartbeat_garbage_text and root = heartbeat_root and h = h, OF p]
    by (simp add: heartbeat_root_def cJSON_GetObjectItemCaseSensitive_def cJSON_IsString_def
          cJSON_IsObject_def valuestring_def children_def stringToSignalingMessageType_def)
qed

lemma example_deserialize_ping:
  "deserialize example_Parse ping_text h = Inl (invalid_argument ''Unknown message type: PING'')"
  unfolding deserialize_parsed [where Parse = example_Parse and jsonStr = ping_text and root = ping_root and h = h,
      OF example_Parse_ping]
  by (simp add: ping_root_def cJSON_GetObjectItemCaseSensitive_def stringToSignalingMessageType_def)

lemma example_deserialize_garbage:
  "deserialize example_Parse ''garbage'' h = Inl (runtime_error ''Failed to parse JSON'')"
  using deserialize_parse_failure [where Parse = example_Parse and jsonStr = "''garbage''", OF example_Parse_garbage]
  by simp

lemma example_message_json: "message_json [Some example_payload] example_message = example_root"
  by (simp add: message_json_def example_message_def example_metadata_def example_root_def payload_tree_def
        lookup_def c_str_def)

lemma nul_message_json: "message_json ([] :: nat heap) nul_message = heartbeat_root"
  by (simp add: message_json_def nul_message_def heartbeat_root_def payload_tree_def c_str_def)

lemma example_serialize: "serialize example_Print [Some example_payload] example_message = Inr example_text"
  by (simp add: serialize_def example_message_json example_Print_def)

lemma nul_serialize: "serialize example_Print ([] :: nat heap) nul_message = Inr heartbeat_text"
  by (simp add: serialize_def nul_message_json example_Print_def) (simp add: example_root_def heartbeat_root_def)

lemma example_queued_eq:
  "snd (processIncomingMessage example_Parse example_run example_text SignalingClient_new) = example_queued"
  by (simp add: processIncomingMessage_def try_processIncomingMessage_def example_deserialize
        SignalingClient_new_def example_queued_def copy_construct_def cJSON_Duplicate_def lookup_def
        heap_alloc_def destroy_def cJSON_Delete_def Let_def)

lemma example_decodable: "decodable example_Parse example_text" "\<not> decodable example_Parse ''garbage''"
  by (simp_all add: decodable_def example_deserialize example_deserialize_garbage)

section \<open>The message protocol\<close>

subsection \<open>Round trip\<close>

text \<open>
  Claim C1, as stated, fails. A message is valid when \<^verbatim>\<open>validate()\<close> holds, and an id
  with a byte 0 inside is valid; \<^verbatim>\<open>serialize\<close> hands \<^verbatim>\<open>id.c_str()\<close> to the library,
  which keeps the bytes before the first 0. For the heartbeat with the three-byte id
  \<open>a\<close>, 0, \<open>b\<close> the text is that of a heartbeat with id \<open>a\<close>, and decoding it gives
  the id \<open>a\<close>, although the library parses the text back into the very tree it printed.
\<close>

theorem roundtrip_nul_id_counterexample:
  "validate ([] :: nat heap) nul_message \<and>
   serialize example_Print ([] :: nat heap) nul_message = Inr heartbeat_text \<and>
   example_Parse (c_str heartbeat_text) = Inr (message_json ([] :: nat heap) nul_message) \<and>
   deserialize example_Parse heartbeat_text ([] :: nat heap) =
     Inr (\<lparr>msgType = HEARTBEAT, msgId = ''a'', payload = None, metadata = []\<rparr>, []) \<and>
   msgId nul_message \<noteq> ''a''"
  by (simp add: nul_serialize example_Parse_heartbeat nul_message_json example_deserialize_heartbeat)
     (simp add: validate_def nul_message_def)

text \<open>
  Claim C1, amended. Let the id of \<open>m\<close> and the keys and values of its metadata hold no
  byte 0 (the keys being distinct, as in any map), and let the library parse the text it
  printed for \<open>m\<close> back into the tree it was given. Then deserializing the serialization
  of \<open>m\<close> succeeds, in any store, and yields a message with the type and the id of \<open>m\<close>,
  a payload tree equal to that of \<open>m\<close> (or none when \<open>m\<close> has none) and the metadata
  entries of \<open>m\<close>; no cell the store had is changed.
\<close>

theorem serialize_deserialize_roundtrip:
  assumes "no_NUL (msgId m)"
    and "list_all (\<lambda>kv. no_NUL (fst kv) \<and> no_NUL (snd kv)) (metadata m)"
    and "distinct (map fst (metadata m))"
    and "serialize Print h m = Inr wire"
    and "Parse (c_str wire) = Inr (message_json h m)"
  shows "\<exists>m' h'. deserialize Parse wire hr = Inr (m', h') \<and>
           msgType m' = msgType m \<and> msgId m' = msgId m \<and>
           payload_tree h' m' = payload_tree h m \<and>
           metadata m' = metadata m \<and>
           (\<forall>a<length hr. lookup h' a = lookup hr a)"
proof (cases "payload_tree h m")
  case None
  then have "deserialize Parse wire hr =
      Inr (\<lparr>msgType = msgType m, msgId = msgId m, payload = None, metadata = metadata m\<rparr>, hr)"
    using deserialize_message_json [where Parse = Parse and wire = wire and h = h and m = m and hr = hr,
        OF assms(2) assms(3) assms(5)] c_str_no_NUL [OF assms(1)]
    by simp
  then show ?thesis
    using None by (simp add: payload_tree_def)
next
  case (Some p)
  then have "deserialize Parse wire hr =
      Inr (\<lparr>msgType = msgType m, msgId = msgId m, payload = Some (Suc (length hr)), metadata = metadata m\<rparr>,
           hr @ [Some p, Some p])"
    using deserialize_message_json [where Parse = Parse and wire = wire and h = h and m = m and hr = hr,
        OF assms(2) assms(3) assms(5)] c_str_no_NUL [OF assms(1)]
    by simp
  then show ?thesis
    using Some by (simp add: payload_tree_def lookup_def nth_append)
qed

theorem serialize_deserialize_roundtrip_witness:
  "no_NUL (msgId example_message) \<and>
   list_all (\<lambda>kv. no_NUL (fst kv) \<and> no_NUL (snd kv)) (metadata example_message) \<and>
   distinct (map fst (metadata example_message)) \<and>
   serialize example_Print [Some example_payload] example_message = Inr example_text \<and>
   example_Parse (c_str example_text) = Inr (message_json [Some example_payload] example_message) \<and>
   (\<exists>m' h'. deserialize example_Parse example_text [] = Inr (m', h') \<and>
      msgType m' = REGISTER \<and> msgId m' = ''dev-42'' \<and>
      payload_tree h' m' = Some example_payload \<and> metadata m' = [(''version'', ''1.0.0'')])"
proof -
  have a1: "no_NUL (msgId example_message)"
    by (simp add: no_NUL_def example_message_def)
  have a2: "list_all (\<lambda>kv. no_NUL (fst kv) \<and> no_NUL (snd kv)) (metadata example_message)"
    by (simp add: no_NUL_def example_message_def example_metadata_def)
  have a3: "distinct (map fst (metadata example_message))"
    by (simp add: example_message_def example_metadata_def)
  have a5: "example_Parse (c_str example_text) = Inr (message_json [Some example_payload] example_message)"
    by (simp add: example_Parse_example example_message_json)
  have pt: "payload_tree [Some example_payload] example_message = Some example_payload"
    by (simp add: payload_tree_def lookup_def example_message_def)
  have fields: "msgType example_message = REGISTER" "msgId example_message = ''dev-42''"
    "metadata example_message = [(''version'', ''1.0.0'')]"
    by (simp_all add: example_message_def example_metadata_def)
  from serialize_deserialize_roundtrip [where m = example_message and Print = example_Print
      and h = "[Some example_payload]" and wire = example_text and Parse = example_Parse and hr = "[]",
      OF a1 a2 a3 example_serialize a5]
  show ?thesis
    using a1 a2 a3 a5 example_serialize by (simp add: pt fields)
qed

subsection \<open>Validation\<close>

text \<open>
  Claim C2. \<^verbatim>\<open>validate()\<close> is false whenever the id is empty, whatever the type. For
  a non-empty id: REGISTER, REQUEST and ERROR validate exactly when a payload is present;
  OFFER and ANSWER exactly when the payload is present and is an object whose field
  \<open>sdp\<close> is a string; ICE exactly when the payload is present and is an object whose
  field \<open>candidate\<close> is a string; HEARTBEAT and the seven remaining types always
  validate. The field of a name is the one a lookup by that name returns.
\<close>

theorem validate_per_type:
  "(msgId m = [] \<longrightarrow> \<not> validate h m) \<and>
   (msgId m \<noteq> [] \<longrightarrow>
      (msgType m \<in> {REGISTER, REQUEST, ERROR} \<longrightarrow> validate h m = (payload m \<noteq> None)) \<and>
      (msgType m \<in> {OFFER, ANSWER} \<longrightarrow>
         validate h m =
           (payload m \<noteq> None \<and>
            (\<exists>cs s. payload_tree h m = Some (cJSON_Object cs) \<and> map_of cs ''sdp'' = Some (cJSON_String s)))) \<and>
      (msgType m = ICE \<longrightarrow>
         validate h m =
           (payload m \<noteq> None \<and>
            (\<exists>cs s. payload_tree h m = Some (cJSON_Object cs) \<and> map_of cs ''candidate'' = Some (cJSON_String s)))) \<and>
      (msgType m \<notin> {REGISTER, REQUEST, ERROR, OFFER, ANSWER, ICE} \<longrightarrow> validate h m))"
  by (cases "msgType m")
     (auto simp: validate_def Let_def cJSON_IsString_iff GetObjectItem_Some_iff payload_tree_def)

theorem validate_per_type_witness:
  "msgId \<lparr>msgType = ICE, msgId = ''x'', payload = None, metadata = []\<rparr> \<noteq> [] \<and>
   msgType \<lparr>msgType = ICE, msgId = ''x'', payload = None, metadata = []\<rparr> = ICE \<and>
   \<not> validate ([] :: nat heap) \<lparr>msgType = ICE, msgId = ''x'', payload = None, metadata = []\<rparr> \<and>
   msgId example_message \<noteq> [] \<and> msgType example_message \<in> {REGISTER, REQUEST, ERROR} \<and>
   validate [Some example_payload] example_message"
  using validate_per_type [of "\<lparr>msgType = ICE, msgId = ''x'', payload = None, metadata = []\<rparr>" "[] :: nat heap"]
    validate_per_type [of example_message "[Some example_payload]"]
  by (simp add: example_message_def)

subsection \<open>Decoding failures\<close>

text \<open>
  Claim C3, as stated, fails. \<^verbatim>\<open>deserialize\<close> hands \<^verbatim>\<open>jsonStr.c_str()\<close> to the
  parser, which reads a C string: what follows the first byte 0 of the text is never
  looked at. The text of a heartbeat followed by a byte 0 and the word \<open>garbage\<close> is
  not valid JSON (no JSON text holds a byte 0, and this one does not end where its value
  ends), its fields \<open>type\<close> and \<open>id\<close> are as required, and it decodes.
\<close>

theorem decode_after_nul_counterexample:
  "\<not> no_NUL heartbeat_garbage_text \<and>
   c_str heartbeat_garbage_text = heartbeat_text \<and>
   deserialize example_Parse heartbeat_garbage_text ([] :: nat heap) =
     Inr (\<lparr>msgType = HEARTBEAT, msgId = ''a'', payload = None, metadata = []\<rparr>, [])"
  by (simp add: example_deserialize_after_nul c_str_after_nul)
     (simp add: no_NUL_def heartbeat_garbage_text_def)

text \<open>
  Claim C3, amended. \<^verbatim>\<open>deserialize\<close> throws exactly when the library's parser returns
  no tree for the text up to its first byte 0,
  or the parsed root has no field \<open>type\<close> that is a string, or that string is not one of
  the fourteen type names, or the root has no field \<open>id\<close> that is a string. When it
  returns a message, the type and the id of the message are the ones the two fields
  spell: nothing is defaulted. A root that is not an object has no fields. What it throws
  is a \<^verbatim>\<open>std::runtime_error\<close> or a \<^verbatim>\<open>std::invalid_argument\<close>.
\<close>

theorem deserialize_fails_iff:
  "((\<exists>e. deserialize Parse jsonStr h = Inl e) \<longleftrightarrow>
      (\<exists>err. Parse (c_str jsonStr) = Inl err) \<or>
      (\<exists>root. Parse (c_str jsonStr) = Inr root \<and>
         ((\<forall>ts. cJSON_GetObjectItemCaseSensitive (Some root) ''type'' \<noteq> Some (cJSON_String ts)) \<or>
          (\<exists>ts. cJSON_GetObjectItemCaseSensitive (Some root) ''type'' = Some (cJSON_String ts) \<and>
             ts \<notin> {''REGISTER'', ''REQUEST'', ''RESPONSE'', ''OFFER'', ''ANSWER'', ''ICE'', ''HEARTBEAT'',
                    ''ERROR'', ''DISCONNECT'', ''STATUS'', ''CONFIG_UPDATE'', ''STREAM_INFO'', ''LOG'',
                    ''DIAGNOSTICS''}) \<or>
          (\<forall>i. cJSON_GetObjectItemCaseSensitive (Some root) ''id'' \<noteq> Some (cJSON_String i))))) \<and>
   (\<forall>m h'. deserialize Parse jsonStr h = Inr (m, h') \<longrightarrow>
      (\<exists>root. Parse (c_str jsonStr) = Inr root \<and>
         cJSON_GetObjectItemCaseSensitive (Some root) ''type'' =
           Some (cJSON_String (signalingMessageTypeToString (msgType m))) \<and>
         cJSON_GetObjectItemCaseSensitive (Some root) ''id'' = Some (cJSON_String (msgId m)))) \<and>
   (\<forall>e. deserialize Parse jsonStr h = Inl e \<longrightarrow> is_std_exception e)"
proof (cases "Parse (c_str jsonStr)")
  case (Inl err)
  then show ?thesis by (simp add: deserialize_parse_failure)
next
  case (Inr root)
  note d = deserialize_parsed [where Parse = Parse and jsonStr = jsonStr and root = root and h = h, OF Inr]
  have fails: "(\<exists>e. deserialize Parse jsonStr h = Inl e) \<longleftrightarrow>
      ((\<forall>ts. cJSON_GetObjectItemCaseSensitive (Some root) ''type'' \<noteq> Some (cJSON_String ts)) \<or>
       (\<exists>ts. cJSON_GetObjectItemCaseSensitive (Some root) ''type'' = Some (cJSON_String ts) \<and>
             (\<exists>e. stringToSignalingMessageType ts = Inl e)) \<or>
       (\<forall>i. cJSON_GetObjectItemCaseSensitive (Some root) ''id'' \<noteq> Some (cJSON_String i)))"
    unfolding d
    by (auto simp: Let_def split: option.splits cJSON.splits sum.splits prod.splits)
  have ok: "\<forall>m h'. deserialize Parse jsonStr h = Inr (m, h') \<longrightarrow>
         cJSON_GetObjectItemCaseSensitive (Some root) ''type'' =
           Some (cJSON_String (signalingMessageTypeToString (msgType m))) \<and>
         cJSON_GetObjectItemCaseSensitive (Some root) ''id'' = Some (cJSON_String (msgId m))"
    unfolding d
    by (auto simp: Let_def metadata_loop_fields stringToSignalingMessageType_Inr_iff
          split: option.splits cJSON.splits sum.splits prod.splits)
  have std: "\<forall>e. deserialize Parse jsonStr h = Inl e \<longrightarrow> is_std_exception e"
    by (auto dest: deserialize_Inl_std)
  show ?thesis
    using fails ok std Inr by (simp add: stringToSignalingMessageType_fails_iff)
qed

theorem deserialize_fails_iff_witness:
  "example_Parse (c_str ping_text) = Inr ping_root \<and>
   cJSON_GetObjectItemCaseSensitive (Some ping_root) ''type'' = Some (cJSON_String ''PING'') \<and>
   (\<exists>e. deserialize example_Parse ping_text ([] :: nat heap) = Inl e) \<and>
   (\<exists>e. deserialize example_Parse ''garbage'' ([] :: nat heap) = Inl e) \<and>
   is_std_exception (invalid_argument ''Unknown message type: PING'') \<and>
   deserialize example_Parse heartbeat_text ([] :: nat heap) =
     Inr (\<lparr>msgType = HEARTBEAT, msgId = ''a'', payload = None, metadata = []\<rparr>, []) \<and>
   cJSON_GetObjectItemCaseSensitive (Some heartbeat_root) ''type'' = Some (cJSON_String ''HEARTBEAT'') \<and>
   cJSON_GetObjectItemCaseSensitive (Some heartbeat_root) ''id'' = Some (cJSON_String ''a'')"
proof -
  have ty: "cJSON_GetObjectItemCaseSensitive (Some ping_root) ''type'' = Some (cJSON_String ''PING'')"
    by (simp add: ping_root_def cJSON_GetObjectItemCaseSensitive_def)
  note ping = deserialize_fails_iff [where Parse = example_Parse and jsonStr = ping_text and h = "[] :: nat heap"]
  note garbage = deserialize_fails_iff [where Parse = example_Parse and jsonStr = "''garbage''" and h = "[] :: nat heap"]
  note beat = deserialize_fails_iff [where Parse = example_Parse and jsonStr = heartbeat_text and h = "[] :: nat heap"]
  have f1: "\<exists>e. deserialize example_Parse ping_text ([] :: nat heap) = Inl e"
    using ping ty by (simp add: example_Parse_ping)
  have f2: "\<exists>e. deserialize example_Parse ''garbage'' ([] :: nat heap) = Inl e"
    using garbage by (simp add: example_Parse_garbage)
  have f3: "cJSON_GetObjectItemCaseSensitive (Some heartbeat_root) ''type'' = Some (cJSON_String ''HEARTBEAT'') \<and>
      cJSON_GetObjectItemCaseSensitive (Some heartbeat_root) ''id'' = Some (cJSON_String ''a'')"
    using beat by (simp add: example_deserialize_heartbeat example_Parse_heartbeat)
  show ?thesis
    using f1 f2 f3 ty by (simp add: example_Parse_ping example_deserialize_heartbeat)
qed

section \<open>Ownership of the payload\<close>

text \<open>
  Claim C7. Let \<open>m\<close> hold the payload tree \<open>p\<close> at address \<open>a\<close>. The copy constructor
  and the copy assignment give a message with the type, id and metadata of \<open>m\<close> and a
  payload at a new address that holds \<open>p\<close>; whatever is then written to the cell of
  either message, the other still reads \<open>p\<close>, and the copy assignment leaves \<open>m\<close> as
  it was. The move constructor and the move assignment give a target with the type, id and
  metadata of \<open>m\<close> that holds the very pointer \<open>a\<close>, and leave the source with no
  payload. The two assignments are between two distinct objects, the target not sharing
  the cell of \<open>m\<close>.
\<close>

theorem copy_and_move_payload:
  assumes pm: "payload m = Some a" and live: "lookup h a = Some p"
  shows "(case copy_construct m h of
            (c, h') \<Rightarrow>
              msgType c = msgType m \<and> msgId c = msgId m \<and> metadata c = metadata m \<and>
              payload c = Some (length h) \<and> payload c \<noteq> payload m \<and>
              payload_tree h' c = Some p \<and> payload_tree h' m = Some p \<and>
              (\<forall>t. payload_tree (h'[a := t]) c = Some p) \<and>
              (\<forall>t. payload_tree (h'[length h := t]) m = Some p)) \<and>
         (case move_construct m of
            (d, m') \<Rightarrow>
              msgType d = msgType m \<and> msgId d = msgId m \<and> metadata d = metadata m \<and>
              payload d = Some a \<and> payload_tree h d = Some p \<and> payload m' = None) \<and>
         (dst \<noteq> src \<and> objs src = m \<and> payload (objs dst) \<noteq> Some a \<longrightarrow>
            (case move_assign dst src objs h of
               (objs', h') \<Rightarrow>
                 msgType (objs' dst) = msgType m \<and> msgId (objs' dst) = msgId m \<and>
                 metadata (objs' dst) = metadata m \<and>
                 payload (objs' dst) = Some a \<and> payload_tree h' (objs' dst) = Some p \<and>
                 payload (objs' src) = None)) \<and>
         (dst \<noteq> src \<and> objs src = m \<and> payload (objs dst) \<noteq> Some a \<longrightarrow>
            (case copy_assign dst src objs h of
               (objs', h') \<Rightarrow>
                 msgType (objs' dst) = msgType m \<and> msgId (objs' dst) = msgId m \<and>
                 metadata (objs' dst) = metadata m \<and>
                 payload (objs' dst) = Some (length h) \<and> payload (objs' dst) \<noteq> payload m \<and>
                 objs' src = m \<and>
                 payload_tree h' (objs' dst) = Some p \<and> payload_tree h' (objs' src) = Some p \<and>
                 (\<forall>t. payload_tree (h'[a := t]) (objs' dst) = Some p) \<and>
                 (\<forall>t. payload_tree (h'[length h := t]) (objs' src) = Some p)))"
proof -
  have lt: "a < length h" using live by (rule lookup_live_less)
  have cp: "copy_construct m h =
      (\<lparr>msgType = msgType m, msgId = msgId m, payload = Some (length h), metadata = metadata m\<rparr>, h @ [Some p])"
    using pm live by (simp add: copy_construct_def cJSON_Duplicate_live)
  have copy: "case copy_construct m h of
            (c, h') \<Rightarrow>
              msgType c = msgType m \<and> msgId c = msgId m \<and> metadata c = metadata m \<and>
              payload c = Some (length h) \<and> payload c \<noteq> payload m \<and>
              payload_tree h' c = Some p \<and> payload_tree h' m = Some p \<and>
              (\<forall>t. payload_tree (h'[a := t]) c = Some p) \<and>
              (\<forall>t. payload_tree (h'[length h := t]) m = Some p)"
    unfolding cp using pm live lt
    by (auto simp: payload_tree_def lookup_def nth_append nth_list_update)
  have move: "case move_construct m of
            (d, m') \<Rightarrow>
              msgType d = msgType m \<and> msgId d = msgId m \<and> metadata d = metadata m \<and>
              payload d = Some a \<and> payload_tree h d = Some p \<and> payload m' = None"
    using pm live by (simp add: move_construct_def payload_tree_def)
  have assign: "dst \<noteq> src \<and> objs src = m \<and> payload (objs dst) \<noteq> Some a \<longrightarrow>
            (case move_assign dst src objs h of
               (objs', h') \<Rightarrow>
                 msgType (objs' dst) = msgType m \<and> msgId (objs' dst) = msgId m \<and>
                 metadata (objs' dst) = metadata m \<and>
                 payload (objs' dst) = Some a \<and> payload_tree h' (objs' dst) = Some p \<and>
                 payload (objs' src) = None)"
    using pm live
    by (auto simp: move_assign_def Let_def payload_tree_def cJSON_Delete_def lookup_update_other
          split: option.splits)
  have cassign: "dst \<noteq> src \<and> objs src = m \<and> payload (objs dst) \<noteq> Some a \<longrightarrow>
            (case copy_assign dst src objs h of
               (objs', h') \<Rightarrow>
                 msgType (objs' dst) = msgType m \<and> msgId (objs' dst) = msgId m \<and>
                 metadata (objs' dst) = metadata m \<and>
                 payload (objs' dst) = Some (length h) \<and> payload (objs' dst) \<noteq> payload m \<and>
                 objs' src = m \<and>
                 payload_tree h' (objs' dst) = Some p \<and> payload_tree h' (objs' src) = Some p \<and>
                 (\<forall>t. payload_tree (h'[a := t]) (objs' dst) = Some p) \<and>
                 (\<forall>t. payload_tree (h'[length h := t]) (objs' src) = Some p))"
  proof (intro impI, elim conjE)
    assume ne: "dst \<noteq> src" and src: "objs src = m" and own: "payload (objs dst) \<noteq> Some a"
    define g where "g = (if payload (objs dst) \<noteq> None then cJSON_Delete (payload (objs dst)) h else h)"
    have leng: "length g = length h"
      by (simp add: g_def cJSON_Delete_def split: option.splits)
    have liveg: "lookup g a = Some p"
      using live own by (auto simp: g_def cJSON_Delete_def lookup_update_other split: option.splits)
    have "copy_assign dst src objs h =
        (case cJSON_Duplicate (payload m) g of
           (q, k) \<Rightarrow> (objs(dst := \<lparr>msgType = msgType m, msgId = msgId m, payload = q, metadata = metadata m\<rparr>), k))"
      using ne src pm unfolding copy_assign_def Let_def g_def by simp
    then have ca: "copy_assign dst src objs h =
        (objs(dst := \<lparr>msgType = msgType m, msgId = msgId m, payload = Some (length h), metadata = metadata m\<rparr>),
         g @ [Some p])"
      using cJSON_Duplicate_live [OF liveg] leng pm by simp
    have new: "lookup (g @ [Some p]) (length h) = Some p"
      using lookup_snoc_new [of g "Some p"] leng by simp
    have old: "lookup (g @ [Some p]) a = Some p"
      using lookup_append_old [of a g "[Some p]"] lt leng liveg by simp
    have nea: "a \<noteq> length h" using lt by simp
    have lenk: "length (g @ [Some p]) = Suc (length h)" by (simp add: leng)
    show "case copy_assign dst src objs h of
               (objs', h') \<Rightarrow>
                 msgType (objs' dst) = msgType m \<and> msgId (objs' dst) = msgId m \<and>
                 metadata (objs' dst) = metadata m \<and>
                 payload (objs' dst) = Some (length h) \<and> payload (objs' dst) \<noteq> payload m \<and>
                 objs' src = m \<and>
                 payload_tree h' (objs' dst) = Some p \<and> payload_tree h' (objs' src) = Some p \<and>
                 (\<forall>t. payload_tree (h'[a := t]) (objs' dst) = Some p) \<and>
                 (\<forall>t. payload_tree (h'[length h := t]) (objs' src) = Some p)"
      unfolding ca
      using ne src pm new old nea nea [symmetric]
        lookup_update_other [of "length h" a "g @ [Some p]"]
        lookup_update_other [of a "length h" "g @ [Some p]"]
      by (auto simp: payload_tree_def)
  qed
  from copy move assign cassign show ?thesis
    by (intro conjI)
qed

theorem copy_and_move_payload_witness:
  "payload example_message = Some 0 \<and> lookup [Some example_payload] 0 = Some example_payload \<and>
   copy_construct example_message [Some example_payload] =
     (\<lparr>msgType = REGISTER, msgId = ''dev-42'', payload = Some 1, metadata = example_metadata\<rparr>,
      [Some example_payload, Some example_payload]) \<and>
   payload_tree ([Some example_payload, Some example_payload][0 := None])
     \<lparr>msgType = REGISTER, msgId = ''dev-42'', payload = Some 1, metadata = example_metadata\<rparr> = Some example_payload \<and>
   payload (fst (move_construct example_message)) = Some 0 \<and>
   payload (snd (move_construct example_message)) = None \<and>
   (1::nat) \<noteq> 2 \<and>
   (\<lambda>i::nat. if i = 2 then example_message else SignalingMessage_default) 2 = example_message \<and>
   payload ((\<lambda>i::nat. if i = 2 then example_message else SignalingMessage_default) 1) \<noteq> Some 0 \<and>
   payload (fst (move_assign 1 2 (\<lambda>i. if i = 2 then example_message else SignalingMessage_default)
      [Some example_payload]) 1) = Some 0 \<and>
   payload (fst (move_assign 1 2 (\<lambda>i. if i = 2 then example_message else SignalingMessage_default)
      [Some example_payload]) 2) = None \<and>
   fst (copy_assign 1 2 (\<lambda>i. if i = 2 then example_message else SignalingMessage_default)
      [Some example_payload]) 1 =
     \<lparr>msgType = REGISTER, msgId = ''dev-42'', payload = Some 1, metadata = example_metadata\<rparr> \<and>
   fst (copy_assign 1 2 (\<lambda>i. if i = 2 then example_message else SignalingMessage_default)
      [Some example_payload]) 2 = example_message \<and>
   snd (copy_assign 1 2 (\<lambda>i. if i = 2 then example_message else SignalingMessage_default)
      [Some example_payload]) = [Some example_payload, Some example_payload]"
proof -
  have pm: "payload example_message = Some 0"
    by (simp add: example_message_def)
  have live: "lookup [Some example_payload] 0 = Some example_payload"
    by (simp add: lookup_def)
  note th = copy_and_move_payload [OF pm live, where dst = 1 and src = 2
      and objs = "\<lambda>i. if i = 2 then example_message else SignalingMessage_default"]
  have pre: "payload ((\<lambda>i::nat. if i = 2 then example_message else SignalingMessage_default) 1) \<noteq> Some 0"
    by (simp add: SignalingMessage_default_def)
  show ?thesis
    using th pre
    by (simp add: copy_construct_def cJSON_Duplicate_def heap_alloc_def payload_tree_def lookup_def
          example_message_def move_construct_def move_assign_def copy_assign_def Let_def cJSON_Delete_def
          SignalingMessage_default_def)
qed

text \<open>
  Claim C10. Let the caller hold a tree \<open>p\<close> at address \<open>a\<close>, which is not the cell of
  the message. \<^verbatim>\<open>setPayload\<close> gives the message a payload at a new address that holds
  \<open>p\<close>; the caller's cell still holds \<open>p\<close>, and whatever the caller then writes to it
  (a changed tree, or nothing once it is deleted), the message still reads \<open>p\<close>.
  \<^verbatim>\<open>getPayload\<close> on the result returns yet another address, which holds \<open>p\<close>, and
  whatever is written there, the message still reads \<open>p\<close>. With no payload,
  \<^verbatim>\<open>getPayload\<close> returns the null pointer.
\<close>

theorem payload_accessors_copy:
  assumes live: "lookup h a = Some p" and own: "payload m \<noteq> Some a"
  shows "(case setPayload m (Some a) h of
            (m', h') \<Rightarrow>
              payload m' = Some (length h) \<and> payload m' \<noteq> Some a \<and>
              payload_tree h' m' = Some p \<and> lookup h' a = Some p \<and>
              (\<forall>t. payload_tree (h'[a := t]) m' = Some p) \<and>
              (case getPayload m' h' of
                 (r, h'') \<Rightarrow>
                   r = Some (length h') \<and> r \<noteq> payload m' \<and>
                   lookup h'' (length h') = Some p \<and> payload_tree h'' m' = Some p \<and>
                   (\<forall>t. payload_tree (h''[length h' := t]) m' = Some p))) \<and>
         (payload m = None \<longrightarrow> getPayload m h = (None, h))"
proof -
  have lt: "a < length h" using live by (rule lookup_live_less)
  define h1 where "h1 = (if payload m \<noteq> None then cJSON_Delete (payload m) h else h)"
  define m' where "m' = m\<lparr>payload := Some (length h)\<rparr>"
  define h' where "h' = h1 @ [Some p]"
  have len1: "length h1 = length h"
    by (simp add: h1_def cJSON_Delete_def split: option.splits)
  have live1: "lookup h1 a = Some p"
    using live own by (auto simp: h1_def cJSON_Delete_def lookup_update_other split: option.splits)
  have "setPayload m (Some a) h = (case cJSON_Duplicate (Some a) h1 of (q, h2) \<Rightarrow> (m\<lparr>payload := q\<rparr>, h2))"
    unfolding setPayload_def Let_def h1_def by simp
  then have sp: "setPayload m (Some a) h = (m', h')"
    using cJSON_Duplicate_live [OF live1] len1 by (simp add: m'_def h'_def)
  have pm': "payload m' = Some (length h)"
    by (simp add: m'_def)
  have len': "length h' = Suc (length h)"
    by (simp add: h'_def len1)
  have own': "lookup h' (length h) = Some p"
    using lookup_snoc_new [of h1 "Some p"] len1 by (simp add: h'_def)
  have live': "lookup h' a = Some p"
    using lookup_append_old [of a h1 "[Some p]"] lt len1 live1 by (simp add: h'_def)
  have gp: "getPayload m' h' = (Some (length h'), h' @ [Some p])"
    using cJSON_Duplicate_live [OF own'] by (simp add: getPayload_def pm')
  have ne: "a \<noteq> length h" using lt by simp
  have set_part: "payload m' = Some (length h) \<and> payload m' \<noteq> Some a \<and>
      payload_tree h' m' = Some p \<and> lookup h' a = Some p \<and>
      (\<forall>t. payload_tree (h'[a := t]) m' = Some p)"
    using ne own' live' lookup_update_other [of "length h" a h']
    by (auto simp: payload_tree_def pm')
  have old: "lookup (h' @ [Some p]) (length h) = Some p"
    using lookup_append_old [of "length h" h' "[Some p]"] own' len' by simp
  have get_part: "Some (length h') \<noteq> payload m' \<and>
      lookup (h' @ [Some p]) (length h') = Some p \<and> payload_tree (h' @ [Some p]) m' = Some p \<and>
      (\<forall>t. payload_tree ((h' @ [Some p])[length h' := t]) m' = Some p)"
    using len' old lookup_snoc_new [of h' "Some p"]
      lookup_update_other [of "length h" "length h'" "h' @ [Some p]"]
    by (auto simp: payload_tree_def pm')
  have absent: "payload m = None \<longrightarrow> getPayload m h = (None, h)"
    by (simp add: getPayload_def)
  show ?thesis
    unfolding sp using set_part get_part absent ne ne [symmetric] by (simp add: gp)
qed

theorem payload_accessors_copy_witness:
  "lookup [Some example_payload] 0 = Some example_payload \<and>
   payload (SignalingMessage_new REGISTER ''dev-42'') \<noteq> Some 0 \<and>
   setPayload (SignalingMessage_new REGISTER ''dev-42'') (Some 0) [Some example_payload] =
     (\<lparr>msgType = REGISTER, msgId = ''dev-42'', payload = Some 1, metadata = []\<rparr>,
      [Some example_payload, Some example_payload]) \<and>
   payload_tree (cJSON_Delete (Some 0) [Some example_payload, Some example_payload])
     \<lparr>msgType = REGISTER, msgId = ''dev-42'', payload = Some 1, metadata = []\<rparr> = Some example_payload \<and>
   getPayload \<lparr>msgType = REGISTER, msgId = ''dev-42'', payload = Some 1, metadata = []\<rparr>
       [Some example_payload, Some example_payload] =
     (Some 2, [Some example_payload, Some example_payload, Some example_payload]) \<and>
   getPayload (SignalingMessage_new REGISTER ''dev-42'') [Some example_payload] = (None, [Some example_payload])"
proof -
  have live: "lookup [Some example_payload] 0 = Some example_payload"
    by (simp add: lookup_def)
  have own: "payload (SignalingMessage_new REGISTER ''dev-42'') \<noteq> Some 0"
    by (simp add: SignalingMessage_new_def)
  show ?thesis
    using payload_accessors_copy [OF live own]
    by (simp add: setPayload_def cJSON_Delete_def getPayload_def cJSON_Duplicate_def lookup_def heap_alloc_def
          payload_tree_def SignalingMessage_new_def)
qed

section \<open>The connection\<close>

subsection \<open>Sending\<close>

text \<open>
  Claim C4. While \<^verbatim>\<open>isConnected()\<close> is false, \<^verbatim>\<open>sendMessage\<close> throws the runtime
  error "Not connected to signaling server" and leaves everything as it was: nothing is
  handed to the transport, and the result does not depend on the printer, which is never
  called.
\<close>

theorem sendMessage_not_connected:
  "\<not> isConnected s \<Longrightarrow>
   sendMessage Print lws_write message s = (Inl (runtime_error ''Not connected to signaling server''), s)"
  by (simp add: sendMessage_def isConnected_def)

theorem sendMessage_not_connected_witness:
  "\<not> isConnected (SignalingClient_new :: nat world) \<and>
   sendMessage (\<lambda>t. None) (\<lambda>w frame. 0) (SignalingMessage_new HEARTBEAT ''dev-42'') (SignalingClient_new :: nat world)
     = (Inl (runtime_error ''Not connected to signaling server''), SignalingClient_new) \<and>
   lws_written (snd (sendMessage (\<lambda>t. None) (\<lambda>w frame. 0) (SignalingMessage_new HEARTBEAT ''dev-42'')
     (SignalingClient_new :: nat world))) = []"
proof -
  have nc: "\<not> isConnected (SignalingClient_new :: nat world)"
    by (simp add: isConnected_def SignalingClient_new_def)
  show ?thesis
    using nc sendMessage_not_connected [OF nc, of "\<lambda>t. None" "\<lambda>w frame. 0" "SignalingMessage_new HEARTBEAT ''dev-42''"]
    by (simp add: SignalingClient_new_def)
qed

text \<open>The conversion of the int the transport returns, of 32 bits, to the 64 bits of a length.\<close>

lemma uint_scast_32_64:
  fixes n :: "32 word"
  shows "uint (scast n :: 64 word) = take_bit 64 (sint n)"
proof -
  have s64: "sint (scast n :: 64 word) = sint n"
    by (rule sint_up_scast) (simp add: is_up)
  show ?thesis
    using uint_sint [of "scast n :: 64 word"] s64 by simp
qed

lemma take_bit_64_negative:
  fixes x :: int
  assumes "- (2 ^ 31) \<le> x" "x < 0"
  shows "take_bit 64 x = x + 2 ^ 64"
proof -
  have "(x + 2 ^ 64) mod 2 ^ 64 = x + 2 ^ 64"
    by (rule mod_pos_pos_trivial) (use assms in simp_all)
  then show ?thesis
    by (simp add: take_bit_eq_mod)
qed

lemma take_bit_64_nonnegative:
  fixes x :: int
  assumes "0 \<le> x" "x < 2 ^ 31"
  shows "take_bit 64 x = x"
  by (rule take_bit_int_eq_self) (use assms in simp_all)

lemma uint_of_nat_64:
  assumes "k < 2 ^ 64"
  shows "uint (of_nat k :: 64 word) = int k"
proof -
  have "unat (of_nat k :: 64 word) = k"
    by (rule of_nat_inverse [OF refl]) (use assms in simp)
  then show ?thesis
    by (simp add: uint_nat)
qed

text \<open>A negative int, converted to the unsigned type, is above every length.\<close>

lemma scast_negative_large:
  fixes n :: "32 word"
  assumes "sint n < 0" and "k < 2 ^ 63"
  shows "\<not> (scast n :: 64 word) < of_nat k"
proof -
  have lo: "- (2 ^ 31) \<le> sint n"
    using sint_ge [of n] by simp
  have "uint (scast n :: 64 word) = sint n + 2 ^ 64"
    using uint_scast_32_64 [of n] take_bit_64_negative [OF lo assms(1)] by simp
  then have big: "2 ^ 63 \<le> uint (scast n :: 64 word)"
    using lo by simp
  have "k < 2 ^ 64" using assms(2) by simp
  then have small: "uint (of_nat k :: 64 word) < 2 ^ 63"
    using uint_of_nat_64 [of k] assms(2) by simp
  show ?thesis
    using big small by (simp add: word_less_def)
qed

lemma scast_nonnegative_less:
  fixes n :: "32 word"
  assumes "0 \<le> sint n" and "k < 2 ^ 64"
  shows "(scast n :: 64 word) < of_nat k \<longleftrightarrow> sint n < int k"
proof -
  have hi: "sint n < 2 ^ 31"
    using sint_lt [of n] by simp
  have "uint (scast n :: 64 word) = sint n"
    using uint_scast_32_64 [of n] take_bit_64_nonnegative [OF assms(1) hi] by simp
  then show ?thesis
    using uint_of_nat_64 [OF assms(2)] by (simp add: word_less_def)
qed

lemma sendMessage_written:
  assumes "connected s" and "serialize Print (heap s) message = Inr wire"
  shows "sendMessage Print lws_write message s =
           (if (scast (lws_write (wsi s) wire) :: 64 word) < of_nat (length wire)
            then Inl (runtime_error ''Failed to send complete message'') else Inr (),
            s\<lparr>lws_written := lws_written s @ [wire]\<rparr>)"
  using assms by (simp add: sendMessage_def Let_def)

text \<open>
  When the transport returns a count that is not negative, the send fails exactly when
  the count is below the length of the text.
\<close>

lemma sendMessage_short_write:
  assumes "isConnected s" and "serialize Print (heap s) message = Inr wire"
    and "length wire < 2 ^ 64" and "0 \<le> sint (lws_write (wsi s) wire)"
  shows "fst (sendMessage Print lws_write message s) =
           (if sint (lws_write (wsi s) wire) < int (length wire)
            then Inl (runtime_error ''Failed to send complete message'') else Inr ())"
proof -
  have c: "connected s" using assms(1) by (simp add: isConnected_def)
  show ?thesis
    using sendMessage_written [OF c assms(2), of lws_write] scast_nonnegative_less [OF assms(4) assms(3)]
    by simp
qed

text \<open>
  Claim C5 does not hold of the code. When the transport returns a negative error code,
  the comparison converts it to a large unsigned number, no exception is thrown, and
  \<^verbatim>\<open>sendMessage\<close> returns normally although no byte was accepted.
\<close>

theorem sendMessage_negative_write:
  assumes "isConnected s" and "serialize Print (heap s) message = Inr wire"
    and "length wire < 2 ^ 63" and "sint (lws_write (wsi s) wire) < 0"
  shows "sendMessage Print lws_write message s = (Inr (), s\<lparr>lws_written := lws_written s @ [wire]\<rparr>)"
proof -
  have c: "connected s" using assms(1) by (simp add: isConnected_def)
  show ?thesis
    using sendMessage_written [OF c assms(2), of lws_write] scast_negative_large [OF assms(4) assms(3)]
    by simp
qed

theorem sendMessage_negative_write_witness:
  "isConnected example_connected \<and>
   serialize example_Print (heap example_connected) example_message = Inr example_text \<and>
   length example_text < 2 ^ 63 \<and>
   sint (- 1 :: 32 word) < 0 \<and>
   sendMessage example_Print (\<lambda>w frame. - 1) example_message example_connected =
     (Inr (), example_connected\<lparr>lws_written := [example_text]\<rparr>)"
proof -
  have c: "isConnected example_connected"
    by (simp add: isConnected_def example_connected_def)
  have hp: "heap example_connected = [Some example_payload]"
    by (simp add: example_connected_def)
  have se: "serialize example_Print (heap example_connected) example_message = Inr example_text"
    by (simp add: hp example_serialize)
  have len: "length example_text < 2 ^ 63"
    by (simp add: example_text_def)
  have neg: "sint ((\<lambda>w frame. - 1 :: 32 word) (wsi example_connected) example_text) < 0"
    by simp
  have lw: "lws_written example_connected = []"
    by (simp add: example_connected_def SignalingClient_new_def)
  from sendMessage_negative_write [OF c se len neg]
  show ?thesis
    using c se len by (simp add: lw)
qed

subsection \<open>Connecting\<close>

text \<open>
  Claim C6, as stated, fails: the code has no state between disconnected and connected.
  A successful \<^verbatim>\<open>connect()\<close> on a new client sets the flag itself, so
  \<^verbatim>\<open>isConnected()\<close> is true as soon as the call returns.
\<close>

theorem connect_connected_at_once:
  "\<not> isConnected (SignalingClient_new :: nat world) \<and>
   fst (connect (Some 1) (SignalingClient_new :: nat world)) \<and>
   isConnected (snd (connect (Some 1) (SignalingClient_new :: nat world)))"
  by (simp add: connect_def isConnected_def SignalingClient_new_def Let_def)

text \<open>
  Claim C6, amended. When the client is connected, \<^verbatim>\<open>connect()\<close> returns true and
  changes nothing. Otherwise it attempts the connection: when the library returns no
  connection it returns false and the client stays disconnected; when the library returns
  one it returns true and the client is connected at once, so that calling it again
  changes nothing. What the later signal of establishment does is left out: see the end
  of this subsection.
\<close>

theorem connect_spec:
  "(isConnected s \<longrightarrow> connect c s = (True, s)) \<and>
   (\<not> isConnected s \<longrightarrow>
      connect None s = (False, s\<lparr>wsi := None\<rparr>) \<and>
      \<not> isConnected (snd (connect None s)) \<and>
      connect (Some w) s = (True, s\<lparr>wsi := Some w, connected := True\<rparr>) \<and>
      isConnected (snd (connect (Some w) s)) \<and>
      connect c (snd (connect (Some w) s)) = (True, snd (connect (Some w) s)))"
  by (simp add: connect_def isConnected_def Let_def)

theorem connect_spec_witness:
  "\<not> isConnected (SignalingClient_new :: nat world) \<and>
   connect None (SignalingClient_new :: nat world) = (False, SignalingClient_new) \<and>
   connect (Some 1) (SignalingClient_new :: nat world) = (True, SignalingClient_new\<lparr>wsi := Some 1, connected := True\<rparr>) \<and>
   isConnected (SignalingClient_new\<lparr>wsi := Some 1, connected := True\<rparr> :: nat world) \<and>
   connect None (SignalingClient_new\<lparr>wsi := Some 1, connected := True\<rparr> :: nat world)
     = (True, SignalingClient_new\<lparr>wsi := Some 1, connected := True\<rparr>)"
proof -
  have nc: "\<not> isConnected (SignalingClient_new :: nat world)"
    by (simp add: isConnected_def SignalingClient_new_def)
  have c: "isConnected (SignalingClient_new\<lparr>wsi := Some 1, connected := True\<rparr> :: nat world)"
    by (simp add: isConnected_def)
  show ?thesis
    using nc c connect_spec [where s = "SignalingClient_new :: nat world" and w = 1 and c = None]
      connect_spec [where s = "SignalingClient_new\<lparr>wsi := Some 1, connected := True\<rparr> :: nat world" and c = None]
    by (simp add: SignalingClient_new_def)
qed

text \<open>
  The signal of establishment reaches the client through \<^verbatim>\<open>callback_signaling\<close>, whose
  client pointer is the user pointer of the context. \<^verbatim>\<open>connect()\<close> leaves that pointer
  as the constructor made it, null, so on a client that has connected every case of the
  callback but the default one goes through the null pointer and has no defined result.
\<close>

lemma connect_context_user: "context_user (snd (connect c s)) = context_user s"
  by (simp add: connect_def Let_def)

lemma callback_signaling_null_client:
  "context_user s = None \<Longrightarrow> reason \<noteq> LWS_CALLBACK_OTHER \<Longrightarrow>
   callback_signaling Parse run reason data s = None"
  by (cases reason) (simp_all add: callback_signaling_def Let_def)

lemma callback_signaling_after_connect:
  "callback_signaling Parse run LWS_CALLBACK_CLIENT_ESTABLISHED data
     (snd (connect (Some 1) (SignalingClient_new :: nat world))) = None"
  by (rule callback_signaling_null_client) (simp_all add: connect_context_user SignalingClient_new_def)

section \<open>Dispatch of inbound frames\<close>

lemma process_decode_failure:
  assumes "deserialize Parse data (heap s) = Inl e"
  shows "processIncomingMessage Parse run data s =
           (Inr (), s\<lparr>stderr := stderr s @ [''Message deserialization error: '' @ what e @ [CHR 0x0A]]\<rparr>)"
proof -
  have "try_processIncomingMessage Parse run data s = (Inl e, s)"
    using assms by (simp add: try_processIncomingMessage_def)
  moreover have "is_std_exception e"
    using assms by (rule deserialize_Inl_std)
  ultimately show ?thesis
    by (simp add: processIncomingMessage_def)
qed

lemma try_process_with_callback:
  assumes cb: "messageCallback s = Some cb"
    and de: "deserialize Parse data (heap s) = Inr (m, h1)"
  shows "snd (try_processIncomingMessage Parse run data s) =
           s\<lparr>heap := destroy m h1, callback_calls := callback_calls s @ [(cb, m, payload_tree h1 m)]\<rparr>"
  using cb de by (simp add: try_processIncomingMessage_def Let_def)

text \<open>The handler around the \<^verbatim>\<open>try\<close> block changes nothing but the error stream.\<close>

lemma process_snd:
  "\<exists>err. snd (processIncomingMessage Parse run data s) =
          snd (try_processIncomingMessage Parse run data s)\<lparr>stderr := err\<rparr>"
proof (cases "try_processIncomingMessage Parse run data s")
  case (Pair r s')
  show ?thesis
  proof (cases r)
    case (Inl e)
    with Pair show ?thesis
      by (cases "is_std_exception e") (auto simp: processIncomingMessage_def intro: exI [of _ "stderr s'"])
  next
    case (Inr u)
    with Pair show ?thesis
      by (auto simp: processIncomingMessage_def intro: exI [of _ "stderr s'"])
  qed
qed

lemma process_with_callback:
  assumes cb: "messageCallback s = Some cb"
    and de: "deserialize Parse data (heap s) = Inr (m, h1)"
  shows "\<exists>err. snd (processIncomingMessage Parse run data s) =
      s\<lparr>heap := destroy m h1, callback_calls := callback_calls s @ [(cb, m, payload_tree h1 m)], stderr := err\<rparr>"
  using process_snd [of Parse run data s] try_process_with_callback [OF cb de, of run] by auto

lemma process_step_with_callback:
  assumes cb: "messageCallback s = Some cb"
  shows "incomingMessages (snd (processIncomingMessage Parse run data s)) = incomingMessages s \<and>
         messageCallback (snd (processIncomingMessage Parse run data s)) = Some cb \<and>
         length (heap s) \<le> length (heap (snd (processIncomingMessage Parse run data s))) \<and>
         (\<forall>a<length (heap s). lookup (heap (snd (processIncomingMessage Parse run data s))) a = lookup (heap s) a)"
proof (cases "deserialize Parse data (heap s)")
  case (Inl e)
  from process_decode_failure [OF Inl, of run] cb show ?thesis by simp
next
  case (Inr r)
  obtain m h1 where r: "r = (m, h1)" by (cases r)
  from Inr r have de: "deserialize Parse data (heap s) = Inr (m, h1)" by simp
  obtain err where e: "snd (processIncomingMessage Parse run data s) =
      s\<lparr>heap := destroy m h1, callback_calls := callback_calls s @ [(cb, m, payload_tree h1 m)], stderr := err\<rparr>"
    using process_with_callback [OF cb de] by blast
  have len: "length (heap s) \<le> length (destroy m h1)"
    using deserialize_Inr_heap [OF de] by (auto simp: destroy_def cJSON_Delete_def)
  show ?thesis
    using e cb len destroy_frame [OF de] by simp
qed

lemma process_step_calls:
  assumes cb: "messageCallback s = Some cb"
  shows "map fst (callback_calls (snd (processIncomingMessage Parse run data s))) =
           map fst (callback_calls s) @ (if decodable Parse data then [cb] else [])"
proof (cases "deserialize Parse data (heap s)")
  case (Inl e)
  then have "\<not> decodable Parse data" by (simp add: decodable_iff [of Parse data "heap s"])
  with process_decode_failure [OF Inl, of run] show ?thesis by simp
next
  case (Inr r)
  then have d: "decodable Parse data" by (simp add: decodable_iff [of Parse data "heap s"])
  obtain m h1 where r: "r = (m, h1)" by (cases r)
  from Inr r have de: "deserialize Parse data (heap s) = Inr (m, h1)" by simp
  obtain err where e: "snd (processIncomingMessage Parse run data s) =
      s\<lparr>heap := destroy m h1, callback_calls := callback_calls s @ [(cb, m, payload_tree h1 m)], stderr := err\<rparr>"
    using process_with_callback [OF cb de] by blast
  show ?thesis using e d by simp
qed

lemma process_all_with_callback:
  "messageCallback s = Some cb \<Longrightarrow>
   incomingMessages (processIncomingMessages Parse run frames s) = incomingMessages s \<and>
   messageCallback (processIncomingMessages Parse run frames s) = Some cb \<and>
   length (heap s) \<le> length (heap (processIncomingMessages Parse run frames s)) \<and>
   (\<forall>a<length (heap s). lookup (heap (processIncomingMessages Parse run frames s)) a = lookup (heap s) a)"
proof (induction frames arbitrary: s)
  case Nil
  then show ?case by (simp add: processIncomingMessages_def)
next
  case (Cons d ds)
  let ?s1 = "snd (processIncomingMessage Parse run d s)"
  note st = process_step_with_callback [OF Cons.prems, of Parse run d]
  from st have cb1: "messageCallback ?s1 = Some cb" by simp
  note ih = Cons.IH [OF cb1]
  have unf: "processIncomingMessages Parse run (d # ds) s = processIncomingMessages Parse run ds ?s1"
    by (simp add: processIncomingMessages_def)
  show ?case
    unfolding unf using st ih by auto
qed

lemma process_all_calls:
  "messageCallback s = Some cb \<Longrightarrow>
   map fst (callback_calls (processIncomingMessages Parse run frames s)) =
     map fst (callback_calls s) @ replicate (length (filter (decodable Parse) frames)) cb"
proof (induction frames arbitrary: s)
  case Nil
  then show ?case by (simp add: processIncomingMessages_def)
next
  case (Cons d ds)
  let ?s1 = "snd (processIncomingMessage Parse run d s)"
  from process_step_with_callback [OF Cons.prems, of Parse run d]
  have cb1: "messageCallback ?s1 = Some cb" by simp
  have unf: "processIncomingMessages Parse run (d # ds) s = processIncomingMessages Parse run ds ?s1"
    by (simp add: processIncomingMessages_def)
  show ?case
    unfolding unf using Cons.IH [OF cb1] process_step_calls [OF Cons.prems, of Parse run d]
    by (simp add: replicate_append_same)
qed

subsection \<open>A frame that does not decode\<close>

text \<open>
  Claim C8. When decoding an inbound frame fails, \<^verbatim>\<open>processIncomingMessage\<close> returns
  normally, and all it does is print one line, the message of the exception, to the error
  stream: the callback is not invoked, the queue is as it was, and so is the store of
  payload trees.
\<close>

theorem processIncomingMessage_decode_failure:
  assumes "deserialize Parse data (heap s) = Inl e"
  shows "processIncomingMessage Parse run data s =
           (Inr (), s\<lparr>stderr := stderr s @ [''Message deserialization error: '' @ what e @ [CHR 0x0A]]\<rparr>) \<and>
         callback_calls (snd (processIncomingMessage Parse run data s)) = callback_calls s \<and>
         incomingMessages (snd (processIncomingMessage Parse run data s)) = incomingMessages s \<and>
         heap (snd (processIncomingMessage Parse run data s)) = heap s"
  using process_decode_failure [OF assms, of run] by simp

theorem processIncomingMessage_decode_failure_witness:
  "deserialize example_Parse ''garbage'' (heap example_queued) = Inl (runtime_error ''Failed to parse JSON'') \<and>
   processIncomingMessage example_Parse example_run ''garbage'' example_queued =
     (Inr (), example_queued\<lparr>stderr := [''Message deserialization error: Failed to parse JSON'' @ [CHR 0x0A]]\<rparr>) \<and>
   incomingMessages (snd (processIncomingMessage example_Parse example_run ''garbage'' example_queued)) =
     incomingMessages example_queued"
  using processIncomingMessage_decode_failure [OF example_deserialize_garbage, where run = example_run]
  by (simp add: example_deserialize_garbage example_queued_def SignalingClient_new_def)

subsection \<open>Callback before queue\<close>

text \<open>
  Claim C9. \<^verbatim>\<open>setMessageCallback\<close> replaces the callback and touches neither the queue
  nor the store. With a callback \<open>f\<close> registered, after any frames have arrived the queue
  is what it was before the registration, \<open>f\<close> is still registered, every cell the store
  had (the payloads of the queued messages among them) holds what it held, and \<open>f\<close> has
  been invoked once for each decodable frame and not otherwise; a single decodable frame
  adds exactly the invocation of \<open>f\<close> on the decoded message.
\<close>

theorem handler_precedence:
  "incomingMessages (setMessageCallback cb s) = incomingMessages s \<and>
   heap (setMessageCallback cb s) = heap s \<and>
   messageCallback (setMessageCallback cb s) = cb \<and>
   (let s' = processIncomingMessages Parse run frames (setMessageCallback (Some f) s)
    in incomingMessages s' = incomingMessages s \<and>
       messageCallback s' = Some f \<and>
       (\<forall>a<length (heap s). lookup (heap s') a = lookup (heap s) a) \<and>
       map fst (callback_calls s') =
         map fst (callback_calls s) @ replicate (length (filter (decodable Parse) frames)) f) \<and>
   (deserialize Parse data (heap s) = Inr (m, h') \<longrightarrow>
      callback_calls (snd (processIncomingMessage Parse run data (setMessageCallback (Some f) s))) =
        callback_calls s @ [(f, m, payload_tree h' m)])"
proof -
  let ?s1 = "setMessageCallback (Some f) s"
  have cb: "messageCallback ?s1 = Some f" by (simp add: setMessageCallback_def)
  have same: "incomingMessages ?s1 = incomingMessages s" "heap ?s1 = heap s" "callback_calls ?s1 = callback_calls s"
    by (simp_all add: setMessageCallback_def)
  have one: "callback_calls (snd (processIncomingMessage Parse run data ?s1)) =
        callback_calls s @ [(f, m, payload_tree h' m)]" if de: "deserialize Parse data (heap s) = Inr (m, h')"
  proof -
    from de same have de1: "deserialize Parse data (heap ?s1) = Inr (m, h')" by simp
    obtain err where "snd (processIncomingMessage Parse run data ?s1) =
      ?s1\<lparr>heap := destroy m h', callback_calls := callback_calls ?s1 @ [(f, m, payload_tree h' m)], stderr := err\<rparr>"
      using process_with_callback [OF cb de1] by blast
    then show ?thesis using same by simp
  qed
  show ?thesis
    using process_all_with_callback [OF cb, of Parse run frames] process_all_calls [OF cb, of Parse run frames]
      same one
    by (simp add: Let_def setMessageCallback_def)
qed

theorem handler_precedence_witness:
  "(2::nat) < length (heap example_queued) \<and>
   deserialize example_Parse example_text (heap example_queued) =
     Inr (\<lparr>msgType = REGISTER, msgId = ''dev-42'', payload = Some 4, metadata = example_metadata\<rparr>,
          heap example_queued @ [Some example_payload, Some example_payload]) \<and>
   incomingMessages (processIncomingMessages example_Parse example_run [example_text, ''garbage'', example_text]
      (setMessageCallback (Some 7) example_queued)) = incomingMessages example_queued \<and>
   lookup (heap (processIncomingMessages example_Parse example_run [example_text, ''garbage'', example_text]
      (setMessageCallback (Some 7) example_queued))) 2 = Some example_payload \<and>
   map fst (callback_calls (processIncomingMessages example_Parse example_run [example_text, ''garbage'', example_text]
      (setMessageCallback (Some 7) example_queued))) = [7, 7] \<and>
   callback_calls (snd (processIncomingMessage example_Parse example_run example_text
      (setMessageCallback (Some 7) example_queued))) =
     [(7, \<lparr>msgType = REGISTER, msgId = ''dev-42'', payload = Some 4, metadata = example_metadata\<rparr>, Some example_payload)]"
proof -
  have len: "(2::nat) < length (heap example_queued)"
    by (simp add: example_queued_def)
  have de: "deserialize example_Parse example_text (heap example_queued) =
     Inr (\<lparr>msgType = REGISTER, msgId = ''dev-42'', payload = Some 4, metadata = example_metadata\<rparr>,
          heap example_queued @ [Some example_payload, Some example_payload])"
    by (simp add: example_deserialize example_queued_def)
  have pt: "payload_tree (heap example_queued @ [Some example_payload, Some example_payload])
              \<lparr>msgType = REGISTER, msgId = ''dev-42'', payload = Some 4, metadata = example_metadata\<rparr> = Some example_payload"
    by (simp add: payload_tree_def lookup_def example_queued_def)
  have l2: "lookup (heap example_queued) 2 = Some example_payload"
    by (simp add: lookup_def example_queued_def)
  have cc: "callback_calls example_queued = []"
    by (simp add: example_queued_def SignalingClient_new_def)
  note hp = handler_precedence [where cb = "Some 7" and s = example_queued and Parse = example_Parse
      and run = example_run and frames = "[example_text, ''garbage'', example_text]" and f = 7
      and data = example_text
      and m = "\<lparr>msgType = REGISTER, msgId = ''dev-42'', payload = Some 4, metadata = example_metadata\<rparr>"
      and h' = "heap example_queued @ [Some example_payload, Some example_payload]"]
  show ?thesis
    using hp len de pt l2 cc by (simp add: Let_def example_decodable)
qed

end
